theory Spec2Isabelle
  imports Main "HOL-Library.Word" "HOL-Library.Sublist" "HOL-Library.Multiset"
begin

section \<open>Strings of the host language\<close>

text \<open>
  A JavaScript string is a finite sequence of 16-bit code units, and every operation the
  search core applies to strings (\<open>===\<close>, \<open>length\<close>, \<open>includes\<close>, \<open>trim\<close>, the two regular
  expressions of the tokenizer) works on code units. Strings are therefore lists of
  16-bit words; \<open>js\<close> turns a literal of printable ASCII characters into such a list.
\<close>

type_synonym code_unit = "16 word"
type_synonym jsstring = "code_unit list"

definition js :: "string \<Rightarrow> jsstring" where
  "js s = map of_char s"

text \<open>
  \<open>String.prototype.toLowerCase\<close>. The model covers the cased letters of Basic Latin and
  of the Latin-1 Supplement (\<open>A\<close>..\<open>Z\<close>, and U+00C0..U+00DE without the multiplication sign
  U+00D7), each of which is mapped to the code unit 32 above it. Every other code unit is
  left as it is; cased letters above U+00FF are outside the model. The corpus contains
  one character above U+007F, the dash U+2014, which has no case.
\<close>

definition toLowerUnit :: "code_unit \<Rightarrow> code_unit" where
  "toLowerUnit c =
     (if (0x41 \<le> c \<and> c \<le> 0x5A) \<or> (0xC0 \<le> c \<and> c \<le> 0xDE \<and> c \<noteq> 0xD7)
      then c + 0x20 else c)"

definition toLowerCase :: "jsstring \<Rightarrow> jsstring" where
  "toLowerCase s = map toLowerUnit s"

text \<open>
  The white space and line terminator code units of ECMAScript: what \<open>trim\<close> strips and
  what the character class \<open>\s\<close> matches.
\<close>

definition isWhiteSpace :: "code_unit \<Rightarrow> bool" where
  "isWhiteSpace c \<longleftrightarrow>
     (0x09 \<le> c \<and> c \<le> 0x0D) \<or> c = 0x20 \<or> c = 0xA0 \<or> c = 0x1680 \<or>
     (0x2000 \<le> c \<and> c \<le> 0x200A) \<or> c = 0x2028 \<or> c = 0x2029 \<or> c = 0x202F \<or>
     c = 0x205F \<or> c = 0x3000 \<or> c = 0xFEFF"

definition trim :: "jsstring \<Rightarrow> jsstring" where
  "trim s = rev (dropWhile isWhiteSpace (rev (dropWhile isWhiteSpace s)))"

text \<open>
  \<open>s.includes(q)\<close>, written \<open>includes_str s q\<close>: \<open>q\<close> occurs in \<open>s\<close> as a contiguous
  run of code units. The empty string occurs in every string.
\<close>

fun includes_str :: "'a list \<Rightarrow> 'a list \<Rightarrow> bool" where
  "includes_str [] q = (q = [])"
| "includes_str (c # cs) q = (prefix q (c # cs) \<or> includes_str cs q)"


section \<open>Data model (\<open>data/categories.ts\<close>, \<open>data/principles.ts\<close>)\<close>

text \<open>
  \<open>PrincipleCategory\<close> is the union of thirteen string literals. \<open>categoryString\<close> gives
  the string each value is at run time, which is what the scorer searches in.
\<close>

datatype PrincipleCategory =
    Naming | Functions | Comments | Formatting | ErrorHandling | UnitTesting | Classes
  | Solid | CodeSmells | ObjectsAndDataStructures | Concurrency | Systems | Emergence

fun categoryString :: "PrincipleCategory \<Rightarrow> jsstring" where
  "categoryString Naming = js ''naming''"
| "categoryString Functions = js ''functions''"
| "categoryString Comments = js ''comments''"
| "categoryString Formatting = js ''formatting''"
| "categoryString ErrorHandling = js ''error-handling''"
| "categoryString UnitTesting = js ''unit-testing''"
| "categoryString Classes = js ''classes''"
| "categoryString Solid = js ''solid''"
| "categoryString CodeSmells = js ''code-smells''"
| "categoryString ObjectsAndDataStructures = js ''objects-and-data-structures''"
| "categoryString Concurrency = js ''concurrency''"
| "categoryString Systems = js ''systems''"
| "categoryString Emergence = js ''emergence''"

definition CATEGORIES :: "PrincipleCategory list" where
  "CATEGORIES =
     [Naming, Functions, Comments, Formatting, ErrorHandling, UnitTesting, Classes, Solid,
      CodeSmells, ObjectsAndDataStructures, Concurrency, Systems, Emergence]"

text \<open>
  The interface \<open>CleanCodePrinciple\<close>. The field \<open>examples\<close> is never read by the
  tokenizer, the scorer or the ranker and is left out; the field \<open>id\<close> is written \<open>id'\<close>.
\<close>

record CleanCodePrinciple =
  id' :: jsstring
  name :: jsstring
  category :: PrincipleCategory
  description :: jsstring
  tags :: "jsstring list"

subsection \<open>The corpus \<open>PRINCIPLES\<close>\<close>

text \<open>
  The sixty-three entries of the array literal, in its order, one constant per entry.
\<close>

definition P_use_intention_revealing_names :: CleanCodePrinciple where
  "P_use_intention_revealing_names =
    \<lparr>id' = js ''use-intention-revealing-names'',
     name = js ''Use Intention-Revealing Names'',
     category = Naming,
     description =
       js ''Variable, function, and class names should reveal why they '' @
       js ''exist, what they do, and how they are used. A name that '' @
       js ''requires a comment to explain its purpose fails to reveal its '' @
       js ''intention.'',
     tags = [js ''naming'', js ''readability'', js ''intention'', js ''variables'', js ''clarity'']\<rparr>"

definition P_avoid_disinformation :: CleanCodePrinciple where
  "P_avoid_disinformation =
    \<lparr>id' = js ''avoid-disinformation'',
     name = js ''Avoid Disinformation'',
     category = Naming,
     description =
       js ''Do not use names that mislead the reader about the meaning of a '' @
       js ''variable or its type. Avoid using names like 'accountList' when '' @
       js ''the variable is not actually a List. Avoid names that vary in '' @
       js ''small ways.'',
     tags = [js ''naming'', js ''misleading'', js ''disinformation'', js ''types'', js ''clarity'']\<rparr>"

definition P_make_meaningful_distinctions :: CleanCodePrinciple where
  "P_make_meaningful_distinctions =
    \<lparr>id' = js ''make-meaningful-distinctions'',
     name = js ''Make Meaningful Distinctions'',
     category = Naming,
     description =
       js ''If names must be different, they should also mean something '' @
       js ''different. Number-series naming (a1, a2, ...) and noise words '' @
       js ''(Info, Data, the) are not meaningful distinctions.'',
     tags = [js ''naming'', js ''distinction'', js ''noise-words'', js ''clarity'']\<rparr>"

definition P_use_pronounceable_names :: CleanCodePrinciple where
  "P_use_pronounceable_names =
    \<lparr>id' = js ''use-pronounceable-names'',
     name = js ''Use Pronounceable Names'',
     category = Naming,
     description =
       js ''Names should be pronounceable so they can be discussed without '' @
       js ''sounding foolish. Programming is a social activity; if you '' @
       js ''can't pronounce a name, you can't discuss it without looking '' @
       js ''silly.'',
     tags = [js ''naming'', js ''pronounceable'', js ''communication'', js ''readability'']\<rparr>"

definition P_use_searchable_names :: CleanCodePrinciple where
  "P_use_searchable_names =
    \<lparr>id' = js ''use-searchable-names'',
     name = js ''Use Searchable Names'',
     category = Naming,
     description =
       js ''Single-letter names and numeric constants are hard to locate '' @
       js ''across a body of text. Longer names are easier to search for. '' @
       js ''The length of a name should correspond to the size of its scope.'',
     tags = [js ''naming'', js ''searchable'', js ''constants'', js ''magic-numbers'', js ''scope'']\<rparr>"

definition P_avoid_encodings :: CleanCodePrinciple where
  "P_avoid_encodings =
    \<lparr>id' = js ''avoid-encodings'',
     name = js ''Avoid Encodings'',
     category = Naming,
     description =
       js ''Hungarian notation, member prefixes (m_), and interface '' @
       js ''prefixes (I) add noise. Modern editors and languages make these '' @
       js ''encodings unnecessary. They add cognitive overhead and make '' @
       js ''names harder to read.'',
     tags = [js ''naming'', js ''encodings'', js ''hungarian-notation'', js ''prefixes'', js ''interfaces'']\<rparr>"

definition P_class_names_should_be_nouns :: CleanCodePrinciple where
  "P_class_names_should_be_nouns =
    \<lparr>id' = js ''class-names-should-be-nouns'',
     name = js ''Class Names Should Be Nouns'',
     category = Naming,
     description =
       js ''Classes and objects should have noun or noun phrase names. A '' @
       js ''class name should not be a verb. Avoid generic names like '' @
       js ''Manager, Processor, Data, or Info '' @ [0x2014] @ js '' prefer specific names that '' @
       js ''describe what the class represents.'',
     tags = [js ''naming'', js ''classes'', js ''nouns'', js ''verbs'', js ''object-oriented'']\<rparr>"

definition P_method_names_should_be_verbs :: CleanCodePrinciple where
  "P_method_names_should_be_verbs =
    \<lparr>id' = js ''method-names-should-be-verbs'',
     name = js ''Method Names Should Be Verbs'',
     category = Naming,
     description =
       js ''Methods should have verb or verb phrase names. Accessors, '' @
       js ''mutators, and predicates should be prefixed with get, set, and '' @
       js ''is according to convention.'',
     tags = [js ''naming'', js ''methods'', js ''verbs'', js ''accessors'', js ''predicates'']\<rparr>"

definition P_pick_one_word_per_concept :: CleanCodePrinciple where
  "P_pick_one_word_per_concept =
    \<lparr>id' = js ''pick-one-word-per-concept'',
     name = js ''Pick One Word Per Concept'',
     category = Naming,
     description =
       js ''Use one word for one abstract concept and stick with it. It is '' @
       js ''confusing to have fetch, retrieve, and get as equivalent '' @
       js ''methods of different classes. A consistent lexicon makes code '' @
       js ''easier to navigate.'',
     tags = [js ''naming'', js ''consistency'', js ''vocabulary'', js ''concept'', js ''lexicon'']\<rparr>"

definition P_use_solution_domain_names :: CleanCodePrinciple where
  "P_use_solution_domain_names =
    \<lparr>id' = js ''use-solution-domain-names'',
     name = js ''Use Solution Domain Names'',
     category = Naming,
     description =
       js ''Use computer science terms, algorithm names, pattern names, and '' @
       js ''math terms when appropriate. The people reading your code are '' @
       js ''programmers '' @ [0x2014] @ js '' names like 'visitor', 'queue', or 'jobQueue' are '' @
       js ''clear to them.'',
     tags = [js ''naming'', js ''domain'', js ''patterns'', js ''technical'', js ''vocabulary'']\<rparr>"

definition P_keep_functions_small :: CleanCodePrinciple where
  "P_keep_functions_small =
    \<lparr>id' = js ''keep-functions-small'',
     name = js ''Keep Functions Small'',
     category = Functions,
     description =
       js ''Functions should be small. The first rule of functions is that '' @
       js ''they should be small. The second rule is that they should be '' @
       js ''smaller than that. Small functions are easier to read, '' @
       js ''understand, and maintain.'',
     tags = [js ''functions'', js ''small'', js ''size'', js ''readability'', js ''decomposition'']\<rparr>"

definition P_do_one_thing :: CleanCodePrinciple where
  "P_do_one_thing =
    \<lparr>id' = js ''do-one-thing'',
     name = js ''Do One Thing'',
     category = Functions,
     description =
       js ''Functions should do one thing. They should do it well. They '' @
       js ''should do it only. If a function does steps that are one level '' @
       js ''of abstraction below the stated name of the function, it is '' @
       js ''doing one thing.'',
     tags = [js ''functions'', js ''single-responsibility'', js ''one-thing'', js ''srp'', js ''decomposition'']\<rparr>"

definition P_one_level_of_abstraction :: CleanCodePrinciple where
  "P_one_level_of_abstraction =
    \<lparr>id' = js ''one-level-of-abstraction'',
     name = js ''One Level of Abstraction per Function'',
     category = Functions,
     description =
       js ''Mixing levels of abstraction within a function is confusing. '' @
       js ''Readers may not be able to tell whether an expression is an '' @
       js ''essential concept or a detail. Keep each function at a single, '' @
       js ''consistent level of abstraction.'',
     tags = [js ''functions'', js ''abstraction'', js ''levels'', js ''readability'', js ''stepdown'']\<rparr>"

definition P_use_descriptive_names :: CleanCodePrinciple where
  "P_use_descriptive_names =
    \<lparr>id' = js ''use-descriptive-names'',
     name = js ''Use Descriptive Names for Functions'',
     category = Functions,
     description =
       js ''A long descriptive name is better than a short enigmatic name. '' @
       js ''A long descriptive name is better than a long descriptive '' @
       js ''comment. Don't be afraid to make a name long if it improves '' @
       js ''clarity.'',
     tags = [js ''functions'', js ''naming'', js ''descriptive'', js ''readability'', js ''self-documenting'']\<rparr>"

definition P_minimize_function_arguments :: CleanCodePrinciple where
  "P_minimize_function_arguments =
    \<lparr>id' = js ''minimize-function-arguments'',
     name = js ''Minimize Function Arguments'',
     category = Functions,
     description =
       js ''The ideal number of arguments for a function is zero (niladic). '' @
       js ''Next comes one (monadic), followed by two (dyadic). Three '' @
       js ''arguments (triadic) should be avoided. More than three requires '' @
       js ''very special justification. Use objects to group related '' @
       js ''arguments.'',
     tags = [js ''functions'', js ''arguments'', js ''parameters'', js ''objects'', js ''arity'']\<rparr>"

definition P_avoid_flag_arguments :: CleanCodePrinciple where
  "P_avoid_flag_arguments =
    \<lparr>id' = js ''avoid-flag-arguments'',
     name = js ''Avoid Flag Arguments'',
     category = Functions,
     description =
       js ''Boolean arguments loudly declare that the function does more '' @
       js ''than one thing. They are confusing and should be avoided. '' @
       js ''Instead, split the function into two with descriptive names.'',
     tags = [js ''functions'', js ''boolean'', js ''flags'', js ''splitting'', js ''srp'']\<rparr>"

definition P_avoid_side_effects_in_functions :: CleanCodePrinciple where
  "P_avoid_side_effects_in_functions =
    \<lparr>id' = js ''avoid-side-effects-in-functions'',
     name = js ''Avoid Side Effects'',
     category = Functions,
     description =
       js ''Side effects are lies. A function promises to do one thing, but '' @
       js ''it also does hidden things '' @ [0x2014] @ js '' modifying globals, writing files, '' @
       js ''or changing passed-in arguments. If a function must have a side '' @
       js ''effect, make it explicit in the name.'',
     tags = [js ''functions'', js ''side-effects'', js ''purity'', js ''hidden-behavior'', js ''coupling'']\<rparr>"

definition P_command_query_separation :: CleanCodePrinciple where
  "P_command_query_separation =
    \<lparr>id' = js ''command-query-separation'',
     name = js ''Command-Query Separation'',
     category = Functions,
     description =
       js ''Functions should either do something (command) or answer '' @
       js ''something (query), but not both. Doing both leads to confusion. '' @
       js ''A function that changes state should not return a value, and '' @
       js ''vice versa.'',
     tags = [js ''functions'', js ''command-query'', js ''cqs'', js ''separation'', js ''design'']\<rparr>"

definition P_prefer_exceptions_to_error_codes :: CleanCodePrinciple where
  "P_prefer_exceptions_to_error_codes =
    \<lparr>id' = js ''prefer-exceptions-to-error-codes'',
     name = js ''Prefer Exceptions to Returning Error Codes'',
     category = Functions,
     description =
       js ''Returning error codes leads to deeply nested structures and '' @
       js ''forces callers to deal with errors immediately. Exceptions '' @
       js ''allow error processing to be separated from the happy path, '' @
       js ''making code cleaner.'',
     tags = [js ''functions'', js ''errors'', js ''exceptions'', js ''error-codes'', js ''nesting'']\<rparr>"

definition P_dry_principle :: CleanCodePrinciple where
  "P_dry_principle =
    \<lparr>id' = js ''dry-principle'',
     name = js ''Don't Repeat Yourself (DRY)'',
     category = Functions,
     description =
       js ''Duplication is the root of all evil in software. Every piece of '' @
       js ''knowledge must have a single, unambiguous, authoritative '' @
       js ''representation within a system. Duplicated code means '' @
       js ''duplicated bugs and duplicated maintenance effort.'',
     tags = [js ''functions'', js ''dry'', js ''duplication'', js ''reuse'', js ''maintenance'']\<rparr>"

definition P_comments_do_not_make_up_for_bad_code :: CleanCodePrinciple where
  "P_comments_do_not_make_up_for_bad_code =
    \<lparr>id' = js ''comments-do-not-make-up-for-bad-code'',
     name = js ''Comments Do Not Make Up for Bad Code'',
     category = Comments,
     description =
       js ''One of the most common motivations for writing comments is bad '' @
       js ''code. Rather than spending time writing a comment to explain '' @
       js ''messy code, spend it cleaning the code. Clear code with few '' @
       js ''comments is far superior to cluttered code with lots of '' @
       js ''comments.'',
     tags = [js ''comments'', js ''bad-code'', js ''refactoring'', js ''readability'', js ''self-documenting'']\<rparr>"

definition P_explain_intent_with_comments :: CleanCodePrinciple where
  "P_explain_intent_with_comments =
    \<lparr>id' = js ''explain-intent-with-comments'',
     name = js ''Use Comments to Explain Intent'',
     category = Comments,
     description =
       js ''Sometimes a comment is useful to explain why a decision was '' @
       js ''made, not what the code does. Comments that explain intent '' @
       js ''behind a decision provide value that the code cannot express on '' @
       js ''its own.'',
     tags = [js ''comments'', js ''intent'', js ''why'', js ''decision'', js ''business-rules'']\<rparr>"

definition P_avoid_redundant_comments :: CleanCodePrinciple where
  "P_avoid_redundant_comments =
    \<lparr>id' = js ''avoid-redundant-comments'',
     name = js ''Avoid Redundant Comments'',
     category = Comments,
     description =
       js ''A comment is redundant if it describes something that '' @
       js ''adequately describes itself. Comments that restate what the '' @
       js ''code already clearly says are noise and should be removed.'',
     tags = [js ''comments'', js ''redundant'', js ''noise'', js ''clutter'', js ''readability'']\<rparr>"

definition P_avoid_commented_out_code :: CleanCodePrinciple where
  "P_avoid_commented_out_code =
    \<lparr>id' = js ''avoid-commented-out-code'',
     name = js ''Don't Comment Out Code'',
     category = Comments,
     description =
       js ''Commented-out code festers and rots. It confuses other '' @
       js ''developers who are afraid to delete it. Version control '' @
       js ''remembers your code '' @ [0x2014] @ js '' delete it and retrieve it from history if '' @
       js ''needed.'',
     tags = [js ''comments'', js ''dead-code'', js ''version-control'', js ''cleanup'']\<rparr>"

definition P_todo_comments :: CleanCodePrinciple where
  "P_todo_comments =
    \<lparr>id' = js ''todo-comments'',
     name = js ''Use TODO Comments Sparingly'',
     category = Comments,
     description =
       js ''TODO comments are acceptable as a temporary reminder of work to '' @
       js ''be done, but they should not be an excuse to leave bad code in '' @
       js ''the system. Regularly scan for and address TODO comments.'',
     tags = [js ''comments'', js ''todo'', js ''temporary'', js ''tracking'', js ''technical-debt'']\<rparr>"

definition P_vertical_openness :: CleanCodePrinciple where
  "P_vertical_openness =
    \<lparr>id' = js ''vertical-openness'',
     name = js ''Vertical Openness Between Concepts'',
     category = Formatting,
     description =
       js ''Each blank line is a visual cue that identifies a new and '' @
       js ''separate concept. Blank lines separate the package declaration, '' @
       js ''imports, and each of the functions. This simple rule has a '' @
       js ''profound effect on readability.'',
     tags = [js ''formatting'', js ''vertical'', js ''whitespace'', js ''blank-lines'', js ''readability'']\<rparr>"

definition P_vertical_density :: CleanCodePrinciple where
  "P_vertical_density =
    \<lparr>id' = js ''vertical-density'',
     name = js ''Vertical Density for Related Code'',
     category = Formatting,
     description =
       js ''Lines of code that are tightly related should appear vertically '' @
       js ''close to each other. Closely related concepts should not be '' @
       js ''separated into different files unless there is a very strong '' @
       js ''reason.'',
     tags = [js ''formatting'', js ''vertical'', js ''density'', js ''related-code'', js ''cohesion'']\<rparr>"

definition P_dependent_functions_close :: CleanCodePrinciple where
  "P_dependent_functions_close =
    \<lparr>id' = js ''dependent-functions-close'',
     name = js ''Keep Dependent Functions Close'',
     category = Formatting,
     description =
       js ''If one function calls another, they should be vertically close '' @
       js ''in the source file, with the caller above the callee when '' @
       js ''possible. This gives the program a natural flow and enhances '' @
       js ''readability.'',
     tags = [js ''formatting'', js ''vertical'', js ''ordering'', js ''caller-callee'', js ''flow'']\<rparr>"

definition P_horizontal_formatting :: CleanCodePrinciple where
  "P_horizontal_formatting =
    \<lparr>id' = js ''horizontal-formatting'',
     name = js ''Keep Lines Short'',
     category = Formatting,
     description =
       js ''Lines should be short. The old Hollerith limit of 80 is a bit '' @
       js ''arbitrary, but lines beyond 120 characters are careless. Short '' @
       js ''lines are easier to read and understand.'',
     tags = [js ''formatting'', js ''horizontal'', js ''line-length'', js ''readability'', js ''wrapping'']\<rparr>"

definition P_use_exceptions_not_return_codes :: CleanCodePrinciple where
  "P_use_exceptions_not_return_codes =
    \<lparr>id' = js ''use-exceptions-not-return-codes'',
     name = js ''Use Exceptions, Not Return Codes'',
     category = ErrorHandling,
     description =
       js ''Using exceptions rather than return codes separates error '' @
       js ''handling from the main logic. The calling code is cleaner '' @
       js ''because it doesn't need to check for error codes after every '' @
       js ''call.'',
     tags = [js ''error-handling'', js ''exceptions'', js ''return-codes'', js ''clarity'', js ''separation'']\<rparr>"

definition P_write_try_catch_first :: CleanCodePrinciple where
  "P_write_try_catch_first =
    \<lparr>id' = js ''write-try-catch-first'',
     name = js ''Write Try-Catch-Finally First'',
     category = ErrorHandling,
     description =
       js ''When writing code that might throw exceptions, start with the '' @
       js ''try-catch-finally statement. This helps define what the caller '' @
       js ''can expect, regardless of what goes wrong in the try block.'',
     tags = [js ''error-handling'', js ''try-catch'', js ''exceptions'', js ''structure'', js ''defensive'']\<rparr>"

definition P_provide_context_with_exceptions :: CleanCodePrinciple where
  "P_provide_context_with_exceptions =
    \<lparr>id' = js ''provide-context-with-exceptions'',
     name = js ''Provide Context with Exceptions'',
     category = ErrorHandling,
     description =
       js ''Each exception should provide enough context to determine the '' @
       js ''source and location of an error. Create informative error '' @
       js ''messages that include the operation attempted and the type of '' @
       js ''failure.'',
     tags = [js ''error-handling'', js ''context'', js ''messages'', js ''debugging'', js ''diagnostics'']\<rparr>"

definition P_dont_return_null :: CleanCodePrinciple where
  "P_dont_return_null =
    \<lparr>id' = js ''dont-return-null'',
     name = js ''Don't Return Null'',
     category = ErrorHandling,
     description =
       js ''Returning null creates work for the caller and invites '' @
       js ''null-pointer errors. When tempted to return null, consider '' @
       js ''throwing an exception or returning a special case object '' @
       js ''instead.'',
     tags = [js ''error-handling'', js ''null'', js ''null-checks'', js ''exceptions'', js ''special-case'']\<rparr>"

definition P_dont_pass_null :: CleanCodePrinciple where
  "P_dont_pass_null =
    \<lparr>id' = js ''dont-pass-null'',
     name = js ''Don't Pass Null as Arguments'',
     category = ErrorHandling,
     description =
       js ''Passing null to a function is worse than returning null. Unless '' @
       js ''the API expects null, avoid passing it as it shifts the burden '' @
       js ''of null-checking to every function that receives parameters.'',
     tags = [js ''error-handling'', js ''null'', js ''arguments'', js ''defensive'', js ''contracts'']\<rparr>"

definition P_one_assert_per_test :: CleanCodePrinciple where
  "P_one_assert_per_test =
    \<lparr>id' = js ''one-assert-per-test'',
     name = js ''One Assert per Test'',
     category = UnitTesting,
     description =
       js ''If your project uses tests, they are easiest to understand when '' @
       js ''each test function contains a single assertion. Multiple '' @
       js ''assertions can obscure which concept is being tested. When a '' @
       js ''test fails, you immediately know what's broken.'',
     tags = [js ''unit-testing'', js ''assertions'', js ''single-concept'', js ''clarity'', js ''debugging'']\<rparr>"

definition P_fast_tests :: CleanCodePrinciple where
  "P_fast_tests =
    \<lparr>id' = js ''fast-tests'',
     name = js ''Tests Should Be Fast (F.I.R.S.T.)'',
     category = UnitTesting,
     description =
       js ''If your project uses tests, fast tests are run frequently. Slow '' @
       js ''tests are run infrequently. When tests run slow, you won't want '' @
       js ''to run them frequently, and you'll lose the ability to catch '' @
       js ''problems early. Aim for tests that run in milliseconds.'',
     tags = [js ''unit-testing'', js ''fast'', js ''first'', js ''performance'', js ''frequency'']\<rparr>"

definition P_independent_tests :: CleanCodePrinciple where
  "P_independent_tests =
    \<lparr>id' = js ''independent-tests'',
     name = js ''Tests Should Be Independent'',
     category = UnitTesting,
     description =
       js ''If your project uses tests, they should not depend on each '' @
       js ''other. One test should not set up the conditions for the next. '' @
       js ''You should be able to run each test independently and in any '' @
       js ''order.'',
     tags = [js ''unit-testing'', js ''independent'', js ''isolation'', js ''first'', js ''coupling'']\<rparr>"

definition P_readable_tests :: CleanCodePrinciple where
  "P_readable_tests =
    \<lparr>id' = js ''readable-tests'',
     name = js ''Tests Should Be Readable'',
     category = UnitTesting,
     description =
       js ''If your project uses tests, readability is perhaps even more '' @
       js ''important than in production code. Tests serve as documentation '' @
       js ''for how code should be used. Each test should tell a clear '' @
       js ''story: arrange, act, assert.'',
     tags = [js ''unit-testing'', js ''readability'', js ''documentation'', js ''arrange-act-assert'', js ''naming'']\<rparr>"

definition P_test_boundary_conditions :: CleanCodePrinciple where
  "P_test_boundary_conditions =
    \<lparr>id' = js ''test-boundary-conditions'',
     name = js ''Test Boundary Conditions'',
     category = UnitTesting,
     description =
       js ''Bugs often cluster at boundaries '' @ [0x2014] @ js '' empty arrays, zero values, '' @
       js ''null inputs, max limits. If your project uses tests, exercise '' @
       js ''boundary conditions explicitly. It's where most errors hide.'',
     tags = [js ''unit-testing'', js ''boundaries'', js ''edge-cases'', js ''bugs'', js ''defensive'']\<rparr>"

definition P_classes_should_be_small :: CleanCodePrinciple where
  "P_classes_should_be_small =
    \<lparr>id' = js ''classes-should-be-small'',
     name = js ''Classes Should Be Small'',
     category = Classes,
     description =
       js ''Classes should be small. With functions we measure size by '' @
       js ''counting physical lines. With classes we count '' @
       js ''responsibilities. A class name should describe its single '' @
       js ''responsibility '' @ [0x2014] @ js '' if it requires 'and' or 'or', it does too much.'',
     tags = [js ''classes'', js ''small'', js ''responsibilities'', js ''srp'', js ''cohesion'']\<rparr>"

definition P_high_cohesion :: CleanCodePrinciple where
  "P_high_cohesion =
    \<lparr>id' = js ''high-cohesion'',
     name = js ''Maintain High Cohesion'',
     category = Classes,
     description =
       js ''A class should have a small number of instance variables. Each '' @
       js ''method should manipulate one or more of those variables. The '' @
       js ''more variables a method manipulates, the more cohesive it is to '' @
       js ''its class.'',
     tags = [js ''classes'', js ''cohesion'', js ''instance-variables'', js ''design'', js ''coupling'']\<rparr>"

definition P_organize_for_change :: CleanCodePrinciple where
  "P_organize_for_change =
    \<lparr>id' = js ''organize-for-change'',
     name = js ''Organize Classes for Change'',
     category = Classes,
     description =
       js ''Classes should be organized so that change is easy. The '' @
       js ''Open/Closed Principle states that classes should be open for '' @
       js ''extension but closed for modification. When a new requirement '' @
       js ''arrives, it should require adding code, not changing existing '' @
       js ''code.'',
     tags = [js ''classes'', js ''open-closed'', js ''change'', js ''extension'', js ''modification'']\<rparr>"

definition P_single_responsibility_principle :: CleanCodePrinciple where
  "P_single_responsibility_principle =
    \<lparr>id' = js ''single-responsibility-principle'',
     name = js ''Single Responsibility Principle (SRP)'',
     category = Solid,
     description =
       js ''A class should have one, and only one, reason to change. If a '' @
       js ''class has more than one responsibility, those responsibilities '' @
       js ''become coupled. A change to one can impair or inhibit the '' @
       js ''class's ability to meet the others.'',
     tags = [js ''solid'', js ''srp'', js ''single-responsibility'', js ''coupling'', js ''cohesion'']\<rparr>"

definition P_open_closed_principle :: CleanCodePrinciple where
  "P_open_closed_principle =
    \<lparr>id' = js ''open-closed-principle'',
     name = js ''Open/Closed Principle (OCP)'',
     category = Solid,
     description =
       js ''Software entities should be open for extension but closed for '' @
       js ''modification. You should be able to add new behavior without '' @
       js ''changing existing code. This is typically achieved through '' @
       js ''abstractions and polymorphism.'',
     tags = [js ''solid'', js ''ocp'', js ''open-closed'', js ''extension'', js ''polymorphism'']\<rparr>"

definition P_liskov_substitution_principle :: CleanCodePrinciple where
  "P_liskov_substitution_principle =
    \<lparr>id' = js ''liskov-substitution-principle'',
     name = js ''Liskov Substitution Principle (LSP)'',
     category = Solid,
     description =
       js ''Objects of a superclass should be replaceable with objects of a '' @
       js ''subclass without breaking the application. Subtypes must be '' @
       js ''substitutable for their base types. Violating this leads to '' @
       js ''fragile code with instanceof checks.'',
     tags = [js ''solid'', js ''lsp'', js ''liskov'', js ''substitution'', js ''inheritance'', js ''polymorphism'']\<rparr>"

definition P_interface_segregation_principle :: CleanCodePrinciple where
  "P_interface_segregation_principle =
    \<lparr>id' = js ''interface-segregation-principle'',
     name = js ''Interface Segregation Principle (ISP)'',
     category = Solid,
     description =
       js ''Clients should not be forced to depend on interfaces they do '' @
       js ''not use. Fat interfaces should be split into smaller, more '' @
       js ''specific ones so that clients only need to know about the '' @
       js ''methods that are of interest to them.'',
     tags = [js ''solid'', js ''isp'', js ''interface-segregation'', js ''fat-interface'', js ''decoupling'']\<rparr>"

definition P_dependency_inversion_principle :: CleanCodePrinciple where
  "P_dependency_inversion_principle =
    \<lparr>id' = js ''dependency-inversion-principle'',
     name = js ''Dependency Inversion Principle (DIP)'',
     category = Solid,
     description =
       js ''High-level modules should not depend on low-level modules. Both '' @
       js ''should depend on abstractions. Abstractions should not depend '' @
       js ''on details. Details should depend on abstractions. This reduces '' @
       js ''coupling between modules.'',
     tags = [js ''solid'', js ''dip'', js ''dependency-inversion'', js ''abstractions'', js ''decoupling'', js ''injection'']\<rparr>"

definition P_avoid_magic_numbers :: CleanCodePrinciple where
  "P_avoid_magic_numbers =
    \<lparr>id' = js ''avoid-magic-numbers'',
     name = js ''Replace Magic Numbers with Named Constants'',
     category = CodeSmells,
     description =
       js ''Magic numbers are raw numbers in source code with no '' @
       js ''explanation. They should be replaced with well-named constants. '' @
       js ''Named constants add context and make code easier to read and '' @
       js ''modify.'',
     tags = [js ''code-smells'', js ''magic-numbers'', js ''constants'', js ''readability'', js ''maintenance'']\<rparr>"

definition P_avoid_dead_code :: CleanCodePrinciple where
  "P_avoid_dead_code =
    \<lparr>id' = js ''avoid-dead-code'',
     name = js ''Remove Dead Code'',
     category = CodeSmells,
     description =
       js ''Dead code '' @ [0x2014] @ js '' code that is never executed '' @ [0x2014] @ js '' is clutter. It '' @
       js ''confuses readers and wastes mental energy. Delete it. Version '' @
       js ''control systems remember it if you ever need it back.'',
     tags = [js ''code-smells'', js ''dead-code'', js ''cleanup'', js ''clutter'', js ''version-control'']\<rparr>"

definition P_avoid_feature_envy :: CleanCodePrinciple where
  "P_avoid_feature_envy =
    \<lparr>id' = js ''avoid-feature-envy'',
     name = js ''Avoid Feature Envy'',
     category = CodeSmells,
     description =
       js ''A method that uses more features of another class than its own '' @
       js ''has feature envy. It should probably be moved to the class it '' @
       js ''envies. Methods should be close to the data they manipulate.'',
     tags = [js ''code-smells'', js ''feature-envy'', js ''coupling'', js ''encapsulation'', js ''move-method'']\<rparr>"

definition P_avoid_long_parameter_lists :: CleanCodePrinciple where
  "P_avoid_long_parameter_lists =
    \<lparr>id' = js ''avoid-long-parameter-lists'',
     name = js ''Avoid Long Parameter Lists'',
     category = CodeSmells,
     description =
       js ''Functions with many parameters are hard to understand and '' @
       js ''error-prone. Group related parameters into objects. Long '' @
       js ''parameter lists are a sign that a function may be doing too '' @
       js ''much.'',
     tags = [js ''code-smells'', js ''parameters'', js ''arguments'', js ''objects'', js ''readability'']\<rparr>"

definition P_avoid_inappropriate_intimacy :: CleanCodePrinciple where
  "P_avoid_inappropriate_intimacy =
    \<lparr>id' = js ''avoid-inappropriate-intimacy'',
     name = js ''Avoid Inappropriate Intimacy'',
     category = CodeSmells,
     description =
       js ''Classes that reach into the private parts of other classes are '' @
       js ''too intimate. Minimize what one class knows about the internals '' @
       js ''of another. Keep interactions at the interface level.'',
     tags = [js ''code-smells'', js ''coupling'', js ''encapsulation'', js ''intimacy'', js ''information-hiding'']\<rparr>"

definition P_data_abstraction :: CleanCodePrinciple where
  "P_data_abstraction =
    \<lparr>id' = js ''data-abstraction'',
     name = js ''Data Abstraction'',
     category = ObjectsAndDataStructures,
     description =
       js ''Hiding implementation is about abstractions, not just putting a '' @
       js ''layer of functions between variables. A class should expose '' @
       js ''abstract interfaces that allow users to manipulate the essence '' @
       js ''of the data without knowing its implementation.'',
     tags = [js ''objects-and-data-structures'', js ''abstraction'', js ''encapsulation'', js ''interface'', js ''hiding'']\<rparr>"

definition P_law_of_demeter :: CleanCodePrinciple where
  "P_law_of_demeter =
    \<lparr>id' = js ''law-of-demeter'',
     name = js ''Law of Demeter'',
     category = ObjectsAndDataStructures,
     description =
       js ''A method should only call methods on its own object, its '' @
       js ''parameters, objects it creates, and its direct components. '' @
       js ''\"Talk to friends, not to strangers.\" Chains like '' @
       js ''a.getB().getC().doSomething() violate this law.'',
     tags = [js ''objects-and-data-structures'', js ''demeter'', js ''coupling'', js ''train-wreck'', js ''encapsulation'']\<rparr>"

definition P_data_transfer_objects :: CleanCodePrinciple where
  "P_data_transfer_objects =
    \<lparr>id' = js ''data-transfer-objects'',
     name = js ''Use Data Transfer Objects (DTOs)'',
     category = ObjectsAndDataStructures,
     description =
       js ''Data structures with public variables and no functions (DTOs) '' @
       js ''are useful for transferring data between layers. They are not '' @
       js ''objects '' @ [0x2014] @ js '' they have no behavior. Keep them pure data holders.'',
     tags = [js ''objects-and-data-structures'', js ''dto'', js ''data-transfer'', js ''layers'', js ''serialization'']\<rparr>"

definition P_keep_concurrency_separate :: CleanCodePrinciple where
  "P_keep_concurrency_separate =
    \<lparr>id' = js ''keep-concurrency-separate'',
     name = js ''Keep Concurrency Code Separate'',
     category = Concurrency,
     description =
       js ''Concurrency-related code has its own lifecycle of development, '' @
       js ''change, and tuning. Mixing it with other code adds complexity. '' @
       js ''Keep concurrency-related code separated from other code.'',
     tags = [js ''concurrency'', js ''separation'', js ''async'', js ''parallel'', js ''complexity'']\<rparr>"

definition P_avoid_shared_mutable_state :: CleanCodePrinciple where
  "P_avoid_shared_mutable_state =
    \<lparr>id' = js ''avoid-shared-mutable-state'',
     name = js ''Avoid Shared Mutable State'',
     category = Concurrency,
     description =
       js ''Shared mutable state is the root of most concurrency problems. '' @
       js ''Prefer immutable data, message passing, or isolated state. When '' @
       js ''sharing is necessary, use proper synchronization.'',
     tags = [js ''concurrency'', js ''shared-state'', js ''mutable'', js ''immutable'', js ''race-condition'']\<rparr>"

definition P_separate_construction_from_use :: CleanCodePrinciple where
  "P_separate_construction_from_use =
    \<lparr>id' = js ''separate-construction-from-use'',
     name = js ''Separate Construction from Use'',
     category = Systems,
     description =
       js ''The startup process of constructing objects and wiring '' @
       js ''dependencies is a separate concern from the runtime logic. '' @
       js ''Mixing construction with use creates tight coupling and makes '' @
       js ''the code harder to maintain and extend.'',
     tags = [js ''systems'', js ''construction'', js ''dependency-injection'', js ''coupling'', js ''testing'']\<rparr>"

definition P_use_dependency_injection :: CleanCodePrinciple where
  "P_use_dependency_injection =
    \<lparr>id' = js ''use-dependency-injection'',
     name = js ''Use Dependency Injection'',
     category = Systems,
     description =
       js ''Rather than having an object create its own dependencies, pass '' @
       js ''them in from outside. This separates construction from use, '' @
       js ''improves flexibility, and allows different implementations to '' @
       js ''be swapped in.'',
     tags = [js ''systems'', js ''dependency-injection'', js ''di'', js ''testing'', js ''decoupling'']\<rparr>"

definition P_simple_design_runs_all_tests :: CleanCodePrinciple where
  "P_simple_design_runs_all_tests =
    \<lparr>id' = js ''simple-design-runs-all-tests'',
     name = js ''Simple Design Rule 1: Runs All the Tests'',
     category = Emergence,
     description =
       js ''A system that can be verified is more reliable. Designing for '' @
       js ''verifiability pushes us toward small, single-purpose classes '' @
       js ''and loose coupling '' @ [0x2014] @ js '' which naturally leads to better design. If '' @
       js ''your project uses tests, they are a valuable tool for '' @
       js ''verification '' @ [0x2014] @ js '' but verifiability matters regardless.'',
     tags = [js ''emergence'', js ''testing'', js ''verification'', js ''design'', js ''testability'']\<rparr>"

definition P_simple_design_no_duplication :: CleanCodePrinciple where
  "P_simple_design_no_duplication =
    \<lparr>id' = js ''simple-design-no-duplication'',
     name = js ''Simple Design Rule 2: No Duplication'',
     category = Emergence,
     description =
       js ''Duplication is the primary enemy of a well-designed system. It '' @
       js ''represents additional work, additional risk, and additional '' @
       js ''unnecessary complexity. Eliminating duplication often leads to '' @
       js ''discovering new abstractions.'',
     tags = [js ''emergence'', js ''duplication'', js ''dry'', js ''abstraction'', js ''refactoring'']\<rparr>"

definition P_simple_design_expressive :: CleanCodePrinciple where
  "P_simple_design_expressive =
    \<lparr>id' = js ''simple-design-expressive'',
     name = js ''Simple Design Rule 3: Expressive'',
     category = Emergence,
     description =
       js ''Code should clearly express the intent of its author. The '' @
       js ''clearer code is, the less time others will spend understanding '' @
       js ''it. Use good names, keep functions and classes small, and use '' @
       js ''standard nomenclature (design patterns). When the project '' @
       js ''includes tests, ensure they are well-crafted and expressive too.'',
     tags = [js ''emergence'', js ''expressiveness'', js ''readability'', js ''naming'', js ''clarity'']\<rparr>"

definition P_simple_design_minimal :: CleanCodePrinciple where
  "P_simple_design_minimal =
    \<lparr>id' = js ''simple-design-minimal'',
     name = js ''Simple Design Rule 4: Minimal Classes and Methods'',
     category = Emergence,
     description =
       js ''Keep the overall count of classes and methods low. Too many '' @
       js ''tiny classes and methods can be as problematic as too few large '' @
       js ''ones. Be pragmatic '' @ [0x2014] @ js '' this rule has the lowest priority of the '' @
       js ''four simple design rules.'',
     tags = [js ''emergence'', js ''minimal'', js ''pragmatism'', js ''over-engineering'', js ''simplicity'']\<rparr>"

definition PRINCIPLES :: "CleanCodePrinciple list" where
  "PRINCIPLES =
    [P_use_intention_revealing_names, P_avoid_disinformation, P_make_meaningful_distinctions,
     P_use_pronounceable_names, P_use_searchable_names, P_avoid_encodings,
     P_class_names_should_be_nouns, P_method_names_should_be_verbs,
     P_pick_one_word_per_concept, P_use_solution_domain_names, P_keep_functions_small,
     P_do_one_thing, P_one_level_of_abstraction, P_use_descriptive_names,
     P_minimize_function_arguments, P_avoid_flag_arguments, P_avoid_side_effects_in_functions,
     P_command_query_separation, P_prefer_exceptions_to_error_codes, P_dry_principle,
     P_comments_do_not_make_up_for_bad_code, P_explain_intent_with_comments,
     P_avoid_redundant_comments, P_avoid_commented_out_code, P_todo_comments,
     P_vertical_openness, P_vertical_density, P_dependent_functions_close,
     P_horizontal_formatting, P_use_exceptions_not_return_codes, P_write_try_catch_first,
     P_provide_context_with_exceptions, P_dont_return_null, P_dont_pass_null,
     P_one_assert_per_test, P_fast_tests, P_independent_tests, P_readable_tests,
     P_test_boundary_conditions, P_classes_should_be_small, P_high_cohesion,
     P_organize_for_change, P_single_responsibility_principle, P_open_closed_principle,
     P_liskov_substitution_principle, P_interface_segregation_principle,
     P_dependency_inversion_principle, P_avoid_magic_numbers, P_avoid_dead_code,
     P_avoid_feature_envy, P_avoid_long_parameter_lists, P_avoid_inappropriate_intimacy,
     P_data_abstraction, P_law_of_demeter, P_data_transfer_objects,
     P_keep_concurrency_separate, P_avoid_shared_mutable_state,
     P_separate_construction_from_use, P_use_dependency_injection,
     P_simple_design_runs_all_tests, P_simple_design_no_duplication,
     P_simple_design_expressive, P_simple_design_minimal]"

section \<open>Tokenizer (\<open>search/tokenizer.ts\<close>)\<close>

definition STOP_WORDS :: "jsstring list" where
  "STOP_WORDS =
     [js ''a'', js ''an'', js ''the'', js ''is'', js ''it'', js ''to'', js ''in'', js ''of'',
      js ''and'', js ''or'', js ''for'', js ''on'', js ''at'', js ''by'', js ''with'',
      js ''from'', js ''as'', js ''be'', js ''this'', js ''that'', js ''not'', js ''but'',
      js ''are'', js ''was'', js ''were'', js ''been'', js ''being'', js ''have'', js ''has'',
      js ''had'', js ''do'', js ''does'', js ''did'', js ''will'', js ''would'', js ''could'',
      js ''should'', js ''may'', js ''might'', js ''can'', js ''shall'', js ''i'', js ''you'',
      js ''we'', js ''they'', js ''he'', js ''she'', js ''my'', js ''your'', js ''our'',
      js ''their'', js ''its'', js ''me'', js ''us'', js ''them'', js ''what'', js ''how'',
      js ''when'', js ''where'', js ''which'', js ''who'', js ''whom'', js ''why'']"

text \<open>The own properties of the object literal \<open>CATEGORY_KEYWORDS\<close>, in its order.\<close>

definition CATEGORY_KEYWORDS_table :: "(jsstring \<times> PrincipleCategory) list" where
  "CATEGORY_KEYWORDS_table =
     [(js ''name'', Naming), (js ''names'', Naming), (js ''naming'', Naming),
      (js ''variable'', Naming), (js ''variables'', Naming),
      (js ''function'', Functions), (js ''functions'', Functions), (js ''method'', Functions),
      (js ''methods'', Functions), (js ''argument'', Functions), (js ''arguments'', Functions),
      (js ''parameter'', Functions), (js ''parameters'', Functions), (js ''nesting'', Functions),
      (js ''nested'', Functions), (js ''guard'', Functions), (js ''conditional'', Functions),
      (js ''if-else'', Functions),
      (js ''comment'', Comments), (js ''comments'', Comments), (js ''documentation'', Comments),
      (js ''javadoc'', Comments), (js ''jsdoc'', Comments),
      (js ''format'', Formatting), (js ''formatting'', Formatting),
      (js ''indentation'', Formatting), (js ''whitespace'', Formatting),
      (js ''spacing'', Formatting),
      (js ''error'', ErrorHandling), (js ''errors'', ErrorHandling),
      (js ''exception'', ErrorHandling), (js ''exceptions'', ErrorHandling),
      (js ''try-catch'', ErrorHandling), (js ''null'', ErrorHandling),
      (js ''test'', UnitTesting), (js ''tests'', UnitTesting), (js ''testing'', UnitTesting),
      (js ''unit'', UnitTesting), (js ''assert'', UnitTesting), (js ''assertion'', UnitTesting),
      (js ''class'', Classes), (js ''classes'', Classes), (js ''cohesion'', Classes),
      (js ''responsibility'', Classes),
      (js ''solid'', Solid), (js ''srp'', Solid), (js ''ocp'', Solid), (js ''lsp'', Solid),
      (js ''isp'', Solid), (js ''dip'', Solid),
      (js ''smell'', CodeSmells), (js ''smells'', CodeSmells), (js ''code-smell'', CodeSmells),
      (js ''duplication'', CodeSmells), (js ''magic-number'', CodeSmells),
      (js ''dead-code'', CodeSmells),
      (js ''object'', ObjectsAndDataStructures), (js ''objects'', ObjectsAndDataStructures),
      (js ''data'', ObjectsAndDataStructures), (js ''dto'', ObjectsAndDataStructures),
      (js ''demeter'', ObjectsAndDataStructures),
      (js ''encapsulation'', ObjectsAndDataStructures),
      (js ''concurrency'', Concurrency), (js ''async'', Concurrency),
      (js ''parallel'', Concurrency), (js ''thread'', Concurrency), (js ''race'', Concurrency),
      (js ''system'', Systems), (js ''systems'', Systems), (js ''injection'', Systems),
      (js ''dependency-injection'', Systems),
      (js ''emergence'', Emergence), (js ''simple'', Emergence), (js ''simplicity'', Emergence),
      (js ''design'', Emergence)]"

text \<open>
  \<open>CATEGORY_KEYWORDS[token]\<close> is a property read on an ordinary object, so a token that is
  not an own property is looked up on \<open>Object.prototype\<close>. Each member found there is a
  function or an object, hence truthy, and \<open>detectCategoryBoosts\<close> uses it as a key of the
  boost map. A key of that map is therefore either a category or such an inherited member,
  identified by the name it was read under.
\<close>

datatype boost_key = CategoryKey PrincipleCategory | InheritedKey jsstring

definition OBJECT_PROTOTYPE_members :: "jsstring list" where
  "OBJECT_PROTOTYPE_members =
     [js ''constructor'', js ''hasOwnProperty'', js ''isPrototypeOf'',
      js ''propertyIsEnumerable'', js ''toLocaleString'', js ''toString'', js ''valueOf'',
      js ''__proto__'', js ''__defineGetter__'', js ''__defineSetter__'',
      js ''__lookupGetter__'', js ''__lookupSetter__'']"

definition CATEGORY_KEYWORDS :: "jsstring \<Rightarrow> boost_key option" where
  "CATEGORY_KEYWORDS token =
     (case map_of CATEGORY_KEYWORDS_table token of
        Some c \<Rightarrow> Some (CategoryKey c)
      | None \<Rightarrow> if token \<in> set OBJECT_PROTOTYPE_members then Some (InheritedKey token)
                else None)"

text \<open>The character class \<open>[a-z0-9\-]\<close>.\<close>

definition isTokenUnit :: "code_unit \<Rightarrow> bool" where
  "isTokenUnit c \<longleftrightarrow> (0x61 \<le> c \<and> c \<le> 0x7A) \<or> (0x30 \<le> c \<and> c \<le> 0x39) \<or> c = 0x2D"

text \<open>
  \<open>.replace(/[^a-z0-9\-]+/g, " ")\<close>: every maximal run of code units outside the class
  becomes one space.
\<close>

function replaceNonToken :: "jsstring \<Rightarrow> jsstring" where
  "replaceNonToken [] = []"
| "replaceNonToken (c # cs) =
     (if isTokenUnit c then c # replaceNonToken cs
      else 0x20 # replaceNonToken (dropWhile (\<lambda>d. \<not> isTokenUnit d) cs))"
  by pat_completeness auto
termination
  by (relation "measure length") (auto simp: less_Suc_eq_le length_dropWhile_le)

text \<open>
  \<open>.split(/\s+/)\<close>: the pieces between the maximal runs of white space. A run at the start
  or at the end of the string leaves an empty piece there, and the empty string splits
  into one empty piece.
\<close>

function splitWhiteSpace :: "jsstring \<Rightarrow> jsstring list" where
  "splitWhiteSpace [] = [[]]"
| "splitWhiteSpace (c # cs) =
     (if isWhiteSpace c then [] # splitWhiteSpace (dropWhile isWhiteSpace cs)
      else (case splitWhiteSpace cs of
              [] \<Rightarrow> [[c]]
            | piece # pieces \<Rightarrow> (c # piece) # pieces))"
  by pat_completeness auto
termination
  by (relation "measure length") (auto simp: less_Suc_eq_le length_dropWhile_le)

definition tokenize :: "jsstring \<Rightarrow> jsstring list" where
  "tokenize text =
     filter (\<lambda>token. length token > 1) (splitWhiteSpace (replaceNonToken (toLowerCase text)))"

definition removeStopWords :: "jsstring list \<Rightarrow> jsstring list" where
  "removeStopWords tokens = filter (\<lambda>token. token \<notin> set STOP_WORDS) tokens"

text \<open>
  The boost map is a \<open>Map\<close> that the program only reads with \<open>get\<close>; its insertion order is
  never observed. The loop body of \<open>detectCategoryBoosts\<close> is \<open>boostStep\<close>.
\<close>

type_synonym boost_map = "boost_key \<rightharpoonup> int"

definition boostStep :: "jsstring \<Rightarrow> boost_map \<Rightarrow> boost_map" where
  "boostStep token boosts =
     (case CATEGORY_KEYWORDS token of
        None \<Rightarrow> boosts
      | Some key \<Rightarrow>
          (let current = (case boosts key of None \<Rightarrow> 0 | Some n \<Rightarrow> n)
           in boosts(key \<mapsto> current + 1)))"

definition detectCategoryBoosts :: "jsstring list \<Rightarrow> boost_map" where
  "detectCategoryBoosts tokens = fold boostStep tokens Map.empty"

section \<open>Scorer and ranker (\<open>search/scoring.ts\<close>)\<close>

definition EXACT_ID_MATCH :: int where "EXACT_ID_MATCH = 100"
definition NAME_CONTAINS :: int where "NAME_CONTAINS = 80"
definition TAG_EXACT :: int where "TAG_EXACT = 70"
definition TAG_PARTIAL :: int where "TAG_PARTIAL = 50"
definition DESCRIPTION_CONTAINS :: int where "DESCRIPTION_CONTAINS = 30"
definition CATEGORY_MATCH :: int where "CATEGORY_MATCH = 20"
definition CATEGORY_BOOST_MULTIPLIER :: int where "CATEGORY_BOOST_MULTIPLIER = 15"

text \<open>
  Scores are sums of the integer weights above, so the \<open>number\<close> values of the source are
  modelled as integers. \<open>tagStep\<close> is the body of the loop over \<open>principle.tags\<close>.
\<close>

definition tagStep :: "jsstring \<Rightarrow> jsstring \<Rightarrow> int \<Rightarrow> int" where
  "tagStep normalizedQuery tag score =
     (if tag = normalizedQuery then score + TAG_EXACT
      else if includes_str tag normalizedQuery \<or> includes_str normalizedQuery tag
           then score + TAG_PARTIAL
      else score)"

definition scorePrincipleByQuery :: "CleanCodePrinciple \<Rightarrow> jsstring \<Rightarrow> int" where
  "scorePrincipleByQuery principle query =
     (let normalizedQuery = trim (toLowerCase query);
          score = 0
      in if id' principle = normalizedQuery then EXACT_ID_MATCH
         else
           let score = (if includes_str (toLowerCase (name principle)) normalizedQuery
                        then score + NAME_CONTAINS else score);
               score = fold (tagStep normalizedQuery) (tags principle) score;
               score = (if includes_str (toLowerCase (description principle)) normalizedQuery
                        then score + DESCRIPTION_CONTAINS else score);
               score = (if includes_str (categoryString (category principle)) normalizedQuery
                        then score + CATEGORY_MATCH else score)
           in score)"

definition scorePrincipleByTokens ::
    "CleanCodePrinciple \<Rightarrow> jsstring list \<Rightarrow> boost_map \<Rightarrow> int" where
  "scorePrincipleByTokens principle tokens categoryBoosts =
     (let score = fold (\<lambda>token score. score + scorePrincipleByQuery principle token) tokens 0;
          boost = (case categoryBoosts (CategoryKey (category principle)) of
                     None \<Rightarrow> 0 | Some n \<Rightarrow> n)
      in score + boost * CATEGORY_BOOST_MULTIPLIER)"

text \<open>
  \<open>Array.prototype.sort\<close> with a comparator: the language specification requires a stable
  sort, and a negative result of \<open>cmp a b\<close> places \<open>a\<close> before \<open>b\<close>. The model is the
  insertion sort that puts an element in front of the first later element it does not have
  to follow.
\<close>

fun insertBy :: "('a \<Rightarrow> 'a \<Rightarrow> 'b::linordered_ab_group_add) \<Rightarrow> 'a \<Rightarrow> 'a list \<Rightarrow> 'a list" where
  "insertBy cmp x [] = [x]"
| "insertBy cmp x (y # ys) = (if cmp x y \<le> 0 then x # y # ys else y # insertBy cmp x ys)"

fun sortBy :: "('a \<Rightarrow> 'a \<Rightarrow> 'b::linordered_ab_group_add) \<Rightarrow> 'a list \<Rightarrow> 'a list" where
  "sortBy cmp [] = []"
| "sortBy cmp (x # xs) = insertBy cmp x (sortBy cmp xs)"

text \<open>
  The objects \<open>{ principle, score }\<close> of \<open>rankPrinciples\<close> are pairs, and its comparator
  is \<open>(a, b) => b.score - a.score\<close>. The function is generic in the entries. The two
  scorers of the program return integers; the ranker is modelled for scores of any
  linearly ordered additive group (the integers, the rationals, the reals), where the sign
  of a difference decides the comparison.
\<close>

definition byScoreDescending ::
    "'a \<times> 'b::linordered_ab_group_add \<Rightarrow> 'a \<times> 'b \<Rightarrow> 'b" where
  "byScoreDescending a b = snd b - snd a"

definition rankPrinciples :: "'a list \<Rightarrow> ('a \<Rightarrow> 'b::linordered_ab_group_add) \<Rightarrow> 'a list" where
  "rankPrinciples principles scoreFn =
     map fst
       (sortBy byScoreDescending
         (filter (\<lambda>entry. snd entry > 0)
           (map (\<lambda>principle. (principle, scoreFn principle)) principles)))"

section \<open>The two query strategies (\<open>tools/search-principle.ts\<close>)\<close>

text \<open>
  The ranked lists computed by the handlers of the tools \<open>search-principle\<close> and
  \<open>search-by-context\<close>, before they are cut and formatted.
\<close>

definition searchPrinciple :: "jsstring \<Rightarrow> CleanCodePrinciple list" where
  "searchPrinciple query =
     rankPrinciples PRINCIPLES (\<lambda>principle. scorePrincipleByQuery principle query)"

definition searchByContext :: "jsstring \<Rightarrow> CleanCodePrinciple list" where
  "searchByContext context =
     (let tokens = removeStopWords (tokenize context);
          categoryBoosts = detectCategoryBoosts tokens
      in rankPrinciples PRINCIPLES
           (\<lambda>principle. scorePrincipleByTokens principle tokens categoryBoosts))"


section \<open>The tag rule as the specification words it\<close>

text \<open>
  The contribution of one tag against a normalized query, following the specification:
  70 for a tag equal to the query, otherwise 50 when either string contains the other,
  otherwise nothing.
\<close>

definition spec_tagContribution :: "jsstring \<Rightarrow> jsstring \<Rightarrow> int" where
  "spec_tagContribution tag q =
     (if tag = q then 70
      else if includes_str tag q \<or> includes_str q tag then 50
      else 0)"

section \<open>Re-assembling a token list\<close>

text \<open>
  Not a function of the program: the text that a token list is put back into when the
  tokenizer is applied a second time, the tokens separated by single spaces as
  \<open>tokens.join(" ")\<close> does.
\<close>

fun join :: "jsstring list \<Rightarrow> jsstring" where
  "join [] = []"
| "join [t] = t"
| "join (t # u # ts) = t @ 0x20 # join (u # ts)"

section \<open>Facts about strings\<close>

lemma toLowerUnit_token: "isTokenUnit c \<Longrightarrow> toLowerUnit c = c"
  by (auto simp: isTokenUnit_def toLowerUnit_def word_le_nat_alt)

lemma not_ws_token: "isTokenUnit c \<Longrightarrow> \<not> isWhiteSpace c"
  by (auto simp: isTokenUnit_def isWhiteSpace_def word_le_nat_alt)

lemma toLowerCase_tokens: "list_all isTokenUnit s \<Longrightarrow> toLowerCase s = s"
  by (induction s) (simp_all add: toLowerCase_def toLowerUnit_token)

lemma trim_tokens: "list_all isTokenUnit s \<Longrightarrow> trim s = s"
proof (cases s rule: rev_cases)
  case Nil
  then show ?thesis by (simp add: trim_def)
next
  case (snoc ys y)
  assume a: "list_all isTokenUnit s"
  show ?thesis
  proof (cases s)
    case Nil
    then show ?thesis by (simp add: trim_def)
  next
    case (Cons x xs)
    with a have "\<not> isWhiteSpace x" by (simp add: not_ws_token)
    then have 1: "dropWhile isWhiteSpace s = s" using Cons by simp
    from a snoc have "\<not> isWhiteSpace y" by (simp add: not_ws_token)
    then have 2: "dropWhile isWhiteSpace (rev s) = rev s" using snoc by simp
    show ?thesis by (simp add: trim_def 1 2)
  qed
qed

lemma includes_str_sublist: "includes_str s q \<longleftrightarrow> sublist q s"
  by (induction s) (simp_all add: sublist_Cons_right)

lemma includes_str_count: "includes_str s q \<Longrightarrow> count_list q x \<le> count_list s x"
  by (auto simp: includes_str_sublist sublist_def)

lemma includes_str_Nil: "includes_str s []"
  by (simp add: includes_str_sublist)

lemma includes_str_refl: "includes_str s s"
  by (simp add: includes_str_sublist)

text \<open>
  Literals: \<open>js\<close> is injective, so comparisons and searches between literals can be
  decided on the characters.
\<close>

lemma unat_of_char: "unat (of_char c :: 16 word) = of_char c"
proof -
  have "(of_char c :: 16 word) = of_nat (of_char c)"
    by (simp add: of_nat_of_char)
  moreover have "(of_char c :: nat) < 65536"
    using nat_of_char_less_256 [of c] by linarith
  ultimately show ?thesis
    by (simp add: unat_of_nat)
qed

lemma of_char_word_eq_iff: "(of_char c :: 16 word) = of_char d \<longleftrightarrow> c = d"
proof
  assume "(of_char c :: 16 word) = of_char d"
  then have "unat (of_char c :: 16 word) = unat (of_char d :: 16 word)" by simp
  then show "c = d" by (simp add: unat_of_char)
qed simp

lemma js_eq_iff: "js a = js b \<longleftrightarrow> a = b"
  unfolding js_def by (rule inj_map_eq_map) (simp add: inj_def of_char_word_eq_iff)

lemma js_eq_Nil: "js s = [] \<longleftrightarrow> s = []"
  by (simp add: js_def)

lemma isTokenUnit_of_char:
  "isTokenUnit (of_char c) \<longleftrightarrow>
     (97 \<le> (of_char c :: nat) \<and> (of_char c :: nat) \<le> 122) \<or>
     (48 \<le> (of_char c :: nat) \<and> (of_char c :: nat) \<le> 57) \<or> (of_char c :: nat) = 45"
proof -
  have "(of_char c :: 16 word) = 0x2D \<longleftrightarrow> unat (of_char c :: 16 word) = unat (0x2D :: 16 word)"
    by (simp only: word_unat_eq_iff)
  then show ?thesis
    by (simp add: isTokenUnit_def word_le_nat_alt unat_of_char)
qed

lemma list_all_isTokenUnit_js:
  "list_all isTokenUnit (js s) =
     list_all (\<lambda>c. (97 \<le> (of_char c :: nat) \<and> (of_char c :: nat) \<le> 122) \<or>
     (48 \<le> (of_char c :: nat) \<and> (of_char c :: nat) \<le> 57) \<or> (of_char c :: nat) = 45) s"
  by (simp add: js_def list.pred_map o_def isTokenUnit_of_char)

lemma prefix_map_inj: "inj f \<Longrightarrow> prefix (map f q) (map f r) = prefix q r"
proof (induction q arbitrary: r)
  case Nil
  then show ?case by simp
next
  case (Cons a q)
  then show ?case by (cases r) (auto simp: inj_eq)
qed

lemma includes_str_map_inj: "inj f \<Longrightarrow> includes_str (map f s) (map f q) = includes_str s q"
proof (induction s)
  case Nil
  then show ?case by simp
next
  case (Cons c s)
  have "prefix (map f q) (f c # map f s) = prefix q (c # s)"
    using prefix_map_inj [OF Cons.prems, of q "c # s"] by simp
  with Cons show ?case by simp
qed

lemma includes_str_js: "includes_str (js s) (js q) = includes_str s q"
  unfolding js_def by (rule includes_str_map_inj) (simp add: inj_def of_char_word_eq_iff)

section \<open>Facts about the corpus\<close>

lemmas corpus_defs =
  P_use_intention_revealing_names_def P_avoid_disinformation_def
  P_make_meaningful_distinctions_def P_use_pronounceable_names_def P_use_searchable_names_def
  P_avoid_encodings_def P_class_names_should_be_nouns_def P_method_names_should_be_verbs_def
  P_pick_one_word_per_concept_def P_use_solution_domain_names_def P_keep_functions_small_def
  P_do_one_thing_def P_one_level_of_abstraction_def P_use_descriptive_names_def
  P_minimize_function_arguments_def P_avoid_flag_arguments_def
  P_avoid_side_effects_in_functions_def P_command_query_separation_def
  P_prefer_exceptions_to_error_codes_def P_dry_principle_def
  P_comments_do_not_make_up_for_bad_code_def P_explain_intent_with_comments_def
  P_avoid_redundant_comments_def P_avoid_commented_out_code_def P_todo_comments_def
  P_vertical_openness_def P_vertical_density_def P_dependent_functions_close_def
  P_horizontal_formatting_def P_use_exceptions_not_return_codes_def
  P_write_try_catch_first_def P_provide_context_with_exceptions_def P_dont_return_null_def
  P_dont_pass_null_def P_one_assert_per_test_def P_fast_tests_def P_independent_tests_def
  P_readable_tests_def P_test_boundary_conditions_def P_classes_should_be_small_def
  P_high_cohesion_def P_organize_for_change_def P_single_responsibility_principle_def
  P_open_closed_principle_def P_liskov_substitution_principle_def
  P_interface_segregation_principle_def P_dependency_inversion_principle_def
  P_avoid_magic_numbers_def P_avoid_dead_code_def P_avoid_feature_envy_def
  P_avoid_long_parameter_lists_def P_avoid_inappropriate_intimacy_def P_data_abstraction_def
  P_law_of_demeter_def P_data_transfer_objects_def P_keep_concurrency_separate_def
  P_avoid_shared_mutable_state_def P_separate_construction_from_use_def
  P_use_dependency_injection_def P_simple_design_runs_all_tests_def
  P_simple_design_no_duplication_def P_simple_design_expressive_def
  P_simple_design_minimal_def

text \<open>Every id of the corpus is built of lowercase letters, digits and hyphens.\<close>

lemma corpus_ids_tokens: "list_all (\<lambda>P. list_all isTokenUnit (id' P)) PRINCIPLES"
  apply (simp only: PRINCIPLES_def corpus_defs list.pred_inject CleanCodePrinciple.select_convs)
  apply (simp add: list_all_isTokenUnit_js)
  done

text \<open>No id and no tag of the corpus is the empty string.\<close>

lemma corpus_nonempty_fields:
  "list_all (\<lambda>P. id' P \<noteq> [] \<and> list_all (\<lambda>t. t \<noteq> []) (tags P)) PRINCIPLES"
  apply (simp only: PRINCIPLES_def corpus_defs list.pred_inject CleanCodePrinciple.select_convs)
  apply (simp add: js_eq_Nil)
  done

section \<open>The ranker\<close>

lemma mset_insertBy: "mset (insertBy cmp x ys) = add_mset x (mset ys)"
  by (induction ys) simp_all

lemma mset_sortBy: "mset (sortBy cmp xs) = mset xs"
  by (induction xs) (simp_all add: mset_insertBy)

lemma set_insertBy: "set (insertBy cmp x ys) = insert x (set ys)"
  by (induction ys) auto

lemma set_sortBy: "set (sortBy cmp xs) = set xs"
  by (induction xs) (simp_all add: set_insertBy)

lemma sorted_insertBy:
  "sorted_wrt (\<lambda>a b. snd b \<le> snd a) ys \<Longrightarrow>
     sorted_wrt (\<lambda>a b. snd b \<le> snd a) (insertBy byScoreDescending x ys)"
  by (induction ys) (auto simp: set_insertBy byScoreDescending_def)

lemma sorted_sortBy: "sorted_wrt (\<lambda>a b. snd b \<le> snd a) (sortBy byScoreDescending xs)"
  by (induction xs) (simp_all add: sorted_insertBy)

lemma filter_insertBy:
  "filter (\<lambda>e. snd e = k) (insertBy byScoreDescending x ys) =
     (if snd x = k then x # filter (\<lambda>e. snd e = k) ys else filter (\<lambda>e. snd e = k) ys)"
  by (induction ys) (auto simp: byScoreDescending_def)

lemma filter_sortBy:
  "filter (\<lambda>e. snd e = k) (sortBy byScoreDescending xs) = filter (\<lambda>e. snd e = k) xs"
  by (induction xs) (simp_all add: filter_insertBy)

lemma mset_rank: "mset (rankPrinciples ps f) = filter_mset (\<lambda>p. 0 < f p) (mset ps)"
proof -
  have "mset (rankPrinciples ps f) =
      image_mset fst (mset (filter (\<lambda>e. snd e > 0) (map (\<lambda>p. (p, f p)) ps)))"
    by (simp add: rankPrinciples_def mset_sortBy)
  also have "\<dots> = filter_mset (\<lambda>p. 0 < f p) (mset ps)"
    by (induction ps) simp_all
  finally show ?thesis .
qed

lemma set_rank: "set (rankPrinciples ps f) = {p \<in> set ps. 0 < f p}"
proof -
  have "set (rankPrinciples ps f) = set_mset (mset (rankPrinciples ps f))"
    by simp
  also have "\<dots> = {p \<in> set ps. 0 < f p}"
    by (simp only: mset_rank) simp
  finally show ?thesis .
qed

lemma entry_score:
  "e \<in> set (sortBy byScoreDescending
      (filter (\<lambda>e. snd e > 0) (map (\<lambda>p. (p, f p)) ps))) \<Longrightarrow> snd e = f (fst e)"
  by (auto simp: set_sortBy)

lemma sorted_rank: "sorted_wrt (\<lambda>a b. f b \<le> f a) (rankPrinciples ps f)"
proof -
  let ?L = "sortBy byScoreDescending
      (filter (\<lambda>e. snd e > 0) (map (\<lambda>p. (p, f p)) ps))"
  have "sorted_wrt (\<lambda>a b. snd b \<le> snd a) ?L"
    by (rule sorted_sortBy)
  then have "sorted_wrt (\<lambda>a b. f (fst b) \<le> f (fst a)) ?L"
    by (rule sorted_wrt_mono_rel [rotated]) (auto dest!: entry_score)
  then show ?thesis
    by (simp add: rankPrinciples_def sorted_wrt_map)
qed

lemma stable_rank:
  "filter (\<lambda>p. f p = k) (rankPrinciples ps f) = filter (\<lambda>p. f p = k \<and> 0 < f p) ps"
proof -
  let ?M = "filter (\<lambda>e. snd e > 0) (map (\<lambda>p. (p, f p)) ps)"
  let ?L = "sortBy byScoreDescending ?M"
  have "filter (\<lambda>p. f p = k) (map fst ?L) = map fst (filter (\<lambda>e. f (fst e) = k) ?L)"
    by (simp add: filter_map o_def)
  also have "filter (\<lambda>e. f (fst e) = k) ?L = filter (\<lambda>e. snd e = k) ?L"
    by (rule filter_cong) (auto dest!: entry_score)
  also have "\<dots> = filter (\<lambda>e. snd e = k) ?M"
    by (rule filter_sortBy)
  also have "map fst \<dots> = filter (\<lambda>p. f p = k \<and> 0 < f p) ps"
    by (induction ps) auto
  finally show ?thesis by (simp add: rankPrinciples_def)
qed

lemma rank_no_positive: "\<forall>p \<in> set ps. f p \<le> 0 \<Longrightarrow> rankPrinciples ps f = []"
proof -
  assume "\<forall>p \<in> set ps. f p \<le> 0"
  then have "set (rankPrinciples ps f) = {}"
    by (auto simp: set_rank)
  then show ?thesis by simp
qed

text \<open>
  Claim C3. For every list and every scoring function, \<open>rankPrinciples\<close> returns exactly the
  entries with a strictly positive score (as a multiset, so with their repetitions), in
  descending order of score; the entries of any one score appear in the order they have in
  the input; hence each entry scores at least as much as its successor, and every returned
  entry has a positive score.
\<close>

theorem rankPrinciples_spec:
  "mset (rankPrinciples ps f) = filter_mset (\<lambda>p. 0 < f p) (mset ps) \<and>
   sorted_wrt (\<lambda>a b. f a \<ge> f b) (rankPrinciples ps f) \<and>
   (\<forall>k. filter (\<lambda>p. f p = k) (rankPrinciples ps f) = filter (\<lambda>p. f p = k \<and> 0 < f p) ps) \<and>
   (\<forall>i. Suc i < length (rankPrinciples ps f) \<longrightarrow>
        f (rankPrinciples ps f ! i) \<ge> f (rankPrinciples ps f ! Suc i)) \<and>
   (\<forall>p \<in> set (rankPrinciples ps f). 0 < f p)"
proof (intro conjI allI impI ballI)
  show "mset (rankPrinciples ps f) = filter_mset (\<lambda>p. 0 < f p) (mset ps)"
    by (rule mset_rank)
  show s: "sorted_wrt (\<lambda>a b. f a \<ge> f b) (rankPrinciples ps f)"
    by (rule sorted_rank)
  show "filter (\<lambda>p. f p = k) (rankPrinciples ps f) = filter (\<lambda>p. f p = k \<and> 0 < f p) ps" for k
    by (rule stable_rank)
  show "f (rankPrinciples ps f ! i) \<ge> f (rankPrinciples ps f ! Suc i)"
    if "Suc i < length (rankPrinciples ps f)" for i
    using s that by (simp add: sorted_wrt_iff_nth_less)
  show "0 < f p" if "p \<in> set (rankPrinciples ps f)" for p
    using that by (simp add: set_rank)
qed


theorem rankPrinciples_spec_witness:
  "rankPrinciples [''ab'', ''abcd'', '''', ''cd'', ''abc''] (\<lambda>s. int (length s) - 1) =
     [''abcd'', ''abc'', ''ab'', ''cd''] \<and>
   Suc 1 < length (rankPrinciples [''ab'', ''abcd'', '''', ''cd'', ''abc''] (\<lambda>s. int (length s) - 1)) \<and>
   int (length (rankPrinciples [''ab'', ''abcd'', '''', ''cd'', ''abc''] (\<lambda>s. int (length s) - 1) ! Suc 1)) - 1
     \<le> int (length (rankPrinciples [''ab'', ''abcd'', '''', ''cd'', ''abc''] (\<lambda>s. int (length s) - 1) ! 1)) - 1 \<and>
   ''cd'' \<in> set (rankPrinciples [''ab'', ''abcd'', '''', ''cd'', ''abc''] (\<lambda>s. int (length s) - 1)) \<and>
   0 < int (length ''cd'') - 1"
proof -
  have r: "rankPrinciples [''ab'', ''abcd'', '''', ''cd'', ''abc''] (\<lambda>s. int (length s) - 1) =
     [''abcd'', ''abc'', ''ab'', ''cd'']"
    by (simp add: rankPrinciples_def byScoreDescending_def)
  show ?thesis
    using rankPrinciples_spec [of "[''ab'', ''abcd'', '''', ''cd'', ''abc'']" "\<lambda>s. int (length s) - 1"]
    by (simp add: r)
qed

section \<open>Per-token scoring\<close>

lemma fold_add_sum_list:
  "fold (\<lambda>x (acc::int). acc + f x) xs a = a + sum_list (map f xs)"
  by (induction xs arbitrary: a) simp_all

text \<open>
  Claim C4. For every principle, token list and boost map, \<open>scorePrincipleByTokens\<close> is
  the sum, over the tokens in their order and with repetitions, of the single-query score
  of each token (so a token equal to the id contributes its short-circuit value 100), plus
  fifteen times the count the boost map stores for the category of the principle, a missing
  entry counting as zero.
\<close>

theorem scorePrincipleByTokens_sum:
  "scorePrincipleByTokens P T B =
     sum_list (map (\<lambda>t. scorePrincipleByQuery P t) T) +
     15 * (case B (CategoryKey (category P)) of None \<Rightarrow> 0 | Some n \<Rightarrow> n)"
  by (simp add: scorePrincipleByTokens_def fold_add_sum_list CATEGORY_BOOST_MULTIPLIER_def)

theorem scorePrincipleByTokens_sum_witness:
  "scorePrincipleByTokens P_dry_principle [js ''dry'', js ''reuse'']
     (Map.empty(CategoryKey Functions \<mapsto> 2)) =
   scorePrincipleByQuery P_dry_principle (js ''dry'') +
   scorePrincipleByQuery P_dry_principle (js ''reuse'') + 30"
proof -
  have "category P_dry_principle = Functions"
    by (simp only: P_dry_principle_def CleanCodePrinciple.select_convs)
  then show ?thesis
    using scorePrincipleByTokens_sum [of P_dry_principle "[js ''dry'', js ''reuse'']"
        "Map.empty(CategoryKey Functions \<mapsto> 2)"]
    by simp
qed

section \<open>Single-query scoring\<close>

lemma score_exact_id:
  "id' P = trim (toLowerCase Q) \<Longrightarrow> scorePrincipleByQuery P Q = 100"
  by (simp add: scorePrincipleByQuery_def EXACT_ID_MATCH_def)

text \<open>
  Claim C1. Whenever the id of a principle equals the normalized query, the score is exactly
  100, whatever the name, the tags, the description and the category are; and every
  principle of the corpus scores exactly 100 against its own id.
\<close>

theorem exact_id_short_circuit:
  "(id' P = trim (toLowerCase Q) \<longrightarrow> scorePrincipleByQuery P Q = 100) \<and>
   (\<forall>P \<in> set PRINCIPLES. scorePrincipleByQuery P (id' P) = 100)"
proof (intro conjI impI ballI)
  show "scorePrincipleByQuery P Q = 100" if "id' P = trim (toLowerCase Q)"
    using that by (rule score_exact_id)
  show "scorePrincipleByQuery R (id' R) = 100" if "R \<in> set PRINCIPLES" for R
  proof -
    from that corpus_ids_tokens have "list_all isTokenUnit (id' R)"
      by (simp add: list_all_iff)
    then have "id' R = trim (toLowerCase (id' R))"
      by (simp add: toLowerCase_tokens trim_tokens)
    then show ?thesis by (rule score_exact_id)
  qed
qed

lemma dry_query: "trim (toLowerCase (js '' DRY-Principle '')) = js ''dry-principle''"
  by (simp add: js_def toLowerCase_def toLowerUnit_def trim_def isWhiteSpace_def)

theorem exact_id_short_circuit_witness:
  "id' P_dry_principle = trim (toLowerCase (js '' DRY-Principle '')) \<and>
   scorePrincipleByQuery P_dry_principle (js '' DRY-Principle '') = 100 \<and>
   P_dry_principle \<in> set PRINCIPLES \<and>
   scorePrincipleByQuery P_dry_principle (id' P_dry_principle) = 100"
proof -
  have i: "id' P_dry_principle = js ''dry-principle''"
    by (simp only: P_dry_principle_def CleanCodePrinciple.select_convs)
  have m: "P_dry_principle \<in> set PRINCIPLES"
    by (simp add: PRINCIPLES_def)
  show ?thesis
    using exact_id_short_circuit [of P_dry_principle "js '' DRY-Principle ''"] m
    by (auto simp: i dry_query)
qed

lemma fold_tagStep_sum:
  "fold (tagStep q) ts s = s + sum_list (map (\<lambda>tag. spec_tagContribution tag q) ts)"
  by (induction ts arbitrary: s)
     (simp_all add: tagStep_def spec_tagContribution_def TAG_EXACT_def TAG_PARTIAL_def)

lemma score_no_id:
  "id' P \<noteq> trim (toLowerCase Q) \<Longrightarrow>
   scorePrincipleByQuery P Q =
     (if includes_str (toLowerCase (name P)) (trim (toLowerCase Q)) then 80 else 0) +
     sum_list (map (\<lambda>tag. spec_tagContribution tag (trim (toLowerCase Q))) (tags P)) +
     (if includes_str (toLowerCase (description P)) (trim (toLowerCase Q)) then 30 else 0) +
     (if includes_str (categoryString (category P)) (trim (toLowerCase Q)) then 20 else 0)"
  by (simp add: scorePrincipleByQuery_def fold_tagStep_sum NAME_CONTAINS_def
      DESCRIPTION_CONTAINS_def CATEGORY_MATCH_def)

text \<open>
  Claim C2. When the id does not equal the normalized query, the score is the name
  contribution, plus one contribution per tag, plus the description and category
  contributions, where the contribution of a tag is 70 if it equals the query, else 50 if
  either contains the other, else 0. One pass of the loop body adds exactly that amount; and
  for a tag equal to the query, where the containment test would succeed as well, it adds 70
  only.
\<close>

theorem tag_contributes_once:
  "(id' P \<noteq> trim (toLowerCase Q) \<longrightarrow>
      scorePrincipleByQuery P Q =
        (if includes_str (toLowerCase (name P)) (trim (toLowerCase Q)) then 80 else 0) +
        sum_list (map (\<lambda>tag. spec_tagContribution tag (trim (toLowerCase Q))) (tags P)) +
        (if includes_str (toLowerCase (description P)) (trim (toLowerCase Q)) then 30 else 0) +
        (if includes_str (categoryString (category P)) (trim (toLowerCase Q)) then 20 else 0)) \<and>
   tagStep q tag s = s + spec_tagContribution tag q \<and>
   (tag = q \<longrightarrow> includes_str tag q \<and> includes_str q tag \<and> tagStep q tag s = s + 70)"
  using score_no_id [of P Q] fold_tagStep_sum [of q "[tag]" s]
  by (auto simp: includes_str_refl spec_tagContribution_def)

theorem tag_contributes_once_witness:
  "id' \<lparr>id' = js ''srp-card'', name = js ''The SRP'', category = Solid, description = js ''One reason.'',
         tags = [js ''srp'', js ''srp-rule'', js ''sr'', js ''cohesion'']\<rparr> \<noteq> trim (toLowerCase (js '' SRP'')) \<and>
   scorePrincipleByQuery
      \<lparr>id' = js ''srp-card'', name = js ''The SRP'', category = Solid, description = js ''One reason.'',
         tags = [js ''srp'', js ''srp-rule'', js ''sr'', js ''cohesion'']\<rparr> (js '' SRP'') = 250 \<and>
   js ''srp'' = js ''srp'' \<and> tagStep (js ''srp'') (js ''srp'') 0 = 70"
proof -
  have q: "trim (toLowerCase (js '' SRP'')) = js ''srp''"
    by (simp add: js_def toLowerCase_def toLowerUnit_def trim_def isWhiteSpace_def)
  have n: "toLowerCase (js ''The SRP'') = js ''the srp''" "toLowerCase (js ''One reason.'') = js ''one reason.''"
    by (simp_all add: js_def toLowerCase_def toLowerUnit_def)
  show ?thesis
    using tag_contributes_once [of
      "\<lparr>id' = js ''srp-card'', name = js ''The SRP'', category = Solid, description = js ''One reason.'',
         tags = [js ''srp'', js ''srp-rule'', js ''sr'', js ''cohesion'']\<rparr>"
      "js '' SRP''" "js ''srp''" "js ''srp''" 0]
    by (simp add: q n js_eq_iff includes_str_js spec_tagContribution_def)
qed

section \<open>The tokenizer\<close>

lemma isWhiteSpace_space: "isWhiteSpace 0x20"
  by (simp add: isWhiteSpace_def)

lemma not_token_space: "\<not> isTokenUnit 0x20"
  by (simp add: isTokenUnit_def)

lemma toLowerUnit_space: "toLowerUnit 0x20 = 0x20"
  by (simp add: toLowerUnit_def)

lemma splitWhiteSpace_not_Nil: "splitWhiteSpace s \<noteq> []"
  by (induction s rule: splitWhiteSpace.induct) (auto split: list.splits)

lemma splitWhiteSpace_pieces:
  "p \<in> set (splitWhiteSpace s) \<Longrightarrow> set p \<subseteq> set s \<and> (\<forall>c \<in> set p. \<not> isWhiteSpace c)"
proof (induction s arbitrary: p rule: splitWhiteSpace.induct)
  case 1
  then show ?case by simp
next
  case (2 c cs)
  show ?case
  proof (cases "isWhiteSpace c")
    case True
    with "2.prems" have "p = [] \<or> p \<in> set (splitWhiteSpace (dropWhile isWhiteSpace cs))"
      by simp
    then show ?thesis
    proof
      assume "p = []"
      then show ?thesis by simp
    next
      assume "p \<in> set (splitWhiteSpace (dropWhile isWhiteSpace cs))"
      with "2.IH"(1) [OF True] have "set p \<subseteq> set (dropWhile isWhiteSpace cs)"
        and "\<forall>c \<in> set p. \<not> isWhiteSpace c"
        by blast+
      moreover have "set (dropWhile isWhiteSpace cs) \<subseteq> set cs"
        by (auto dest: set_dropWhileD)
      ultimately show ?thesis by auto
    qed
  next
    case False
    obtain q qs where s: "splitWhiteSpace cs = q # qs"
      using splitWhiteSpace_not_Nil [of cs] by (cases "splitWhiteSpace cs") auto
    with False "2.prems" have "p = c # q \<or> p \<in> set qs"
      by simp
    then show ?thesis
    proof
      assume "p = c # q"
      moreover have "set q \<subseteq> set cs \<and> (\<forall>c \<in> set q. \<not> isWhiteSpace c)"
        using "2.IH"(2) [OF False, of q] s by simp
      ultimately show ?thesis using False by auto
    next
      assume "p \<in> set qs"
      then have "set p \<subseteq> set cs \<and> (\<forall>c \<in> set p. \<not> isWhiteSpace c)"
        using "2.IH"(2) [OF False, of p] s by simp
      then show ?thesis by auto
    qed
  qed
qed

lemma replaceNonToken_units:
  "c \<in> set (replaceNonToken s) \<Longrightarrow> isTokenUnit c \<or> c = 0x20"
  by (induction s rule: replaceNonToken.induct) (auto split: if_splits)

lemma tokenize_tokens:
  assumes "t \<in> set (tokenize text)"
  shows "list_all isTokenUnit t \<and> length t > 1"
proof -
  let ?r = "replaceNonToken (toLowerCase text)"
  from assms have p: "t \<in> set (splitWhiteSpace ?r)" and l: "length t > 1"
    by (simp_all add: tokenize_def)
  have "isTokenUnit c" if "c \<in> set t" for c
  proof -
    from splitWhiteSpace_pieces [OF p] that have "c \<in> set ?r" and "\<not> isWhiteSpace c"
      by auto
    with replaceNonToken_units [of c "toLowerCase text"] show ?thesis
      using isWhiteSpace_space by auto
  qed
  with l show ?thesis by (simp add: list_all_iff)
qed

lemma replaceNonToken_append:
  "list_all isTokenUnit t \<Longrightarrow> replaceNonToken (t @ r) = t @ replaceNonToken r"
  by (induction t) simp_all

lemma join_Cons_hd: "u \<noteq> [] \<Longrightarrow> \<exists>v. join (u # ts) = hd u # v"
  by (cases u; cases ts) auto

lemma replaceNonToken_join:
  "\<forall>t \<in> set ts. t \<noteq> [] \<and> list_all isTokenUnit t \<Longrightarrow> replaceNonToken (join ts) = join ts"
proof (induction ts rule: join.induct)
  case 1
  then show ?case by simp
next
  case (2 t)
  then show ?case using replaceNonToken_append [of t "[]"] by simp
next
  case (3 t u ts)
  then have u: "u \<noteq> []" "isTokenUnit (hd u)"
    by (cases u; simp)+
  then obtain v where v: "join (u # ts) = hd u # v"
    using join_Cons_hd by blast
  have "dropWhile (\<lambda>d. \<not> isTokenUnit d) (join (u # ts)) = join (u # ts)"
    using u v by simp
  moreover have "replaceNonToken (join (u # ts)) = join (u # ts)"
    using 3 by simp
  moreover have "list_all isTokenUnit t"
    using 3 by simp
  ultimately show ?case
    by (simp add: replaceNonToken_append not_token_space)
qed

lemma splitWhiteSpace_append:
  "\<forall>c \<in> set t. \<not> isWhiteSpace c \<Longrightarrow>
     splitWhiteSpace (t @ r) = (t @ hd (splitWhiteSpace r)) # tl (splitWhiteSpace r)"
proof (induction t)
  case Nil
  then show ?case using splitWhiteSpace_not_Nil [of r] by simp
next
  case (Cons a t)
  then show ?case by simp
qed

lemma splitWhiteSpace_join:
  "ts \<noteq> [] \<Longrightarrow> \<forall>t \<in> set ts. t \<noteq> [] \<and> (\<forall>c \<in> set t. \<not> isWhiteSpace c) \<Longrightarrow>
     splitWhiteSpace (join ts) = ts"
proof (induction ts rule: join.induct)
  case 1
  then show ?case by simp
next
  case (2 t)
  then show ?case using splitWhiteSpace_append [of t "[]"] by simp
next
  case (3 t u ts)
  then have u: "u \<noteq> []" "\<not> isWhiteSpace (hd u)"
    by (cases u; simp)+
  then obtain v where v: "join (u # ts) = hd u # v"
    using join_Cons_hd by blast
  have "dropWhile isWhiteSpace (join (u # ts)) = join (u # ts)"
    using u v by simp
  moreover have "splitWhiteSpace (join (u # ts)) = u # ts"
    using 3 by simp
  moreover have "\<forall>c \<in> set t. \<not> isWhiteSpace c"
    using 3 by simp
  ultimately show ?case
    by (simp add: splitWhiteSpace_append isWhiteSpace_space)
qed

lemma toLowerCase_join:
  "\<forall>t \<in> set ts. list_all isTokenUnit t \<Longrightarrow> toLowerCase (join ts) = join ts"
proof (induction ts rule: join.induct)
  case 1
  then show ?case by (simp add: toLowerCase_def)
next
  case (2 t)
  then show ?case by (simp add: toLowerCase_tokens)
next
  case (3 t u ts)
  then have "toLowerCase t = t" "toLowerCase (join (u # ts)) = join (u # ts)"
    by (simp_all add: toLowerCase_tokens)
  then show ?case
    by (simp add: toLowerCase_def toLowerUnit_space)
qed

lemma tokenize_join:
  assumes "\<forall>t \<in> set ts. list_all isTokenUnit t \<and> length t > 1"
  shows "tokenize (join ts) = ts"
proof (cases "ts = []")
  case True
  then show ?thesis by (simp add: tokenize_def toLowerCase_def)
next
  case False
  have ne: "\<forall>t \<in> set ts. t \<noteq> [] \<and> list_all isTokenUnit t"
    using assms by auto
  then have ws: "\<forall>t \<in> set ts. t \<noteq> [] \<and> (\<forall>c \<in> set t. \<not> isWhiteSpace c)"
    by (auto simp: list_all_iff not_ws_token)
  have "toLowerCase (join ts) = join ts"
    using assms by (simp add: toLowerCase_join)
  moreover have "replaceNonToken (join ts) = join ts"
    using ne by (rule replaceNonToken_join)
  moreover have "splitWhiteSpace (join ts) = ts"
    using False ws by (rule splitWhiteSpace_join)
  moreover have "filter (\<lambda>token. length token > 1) ts = ts"
    using assms by (simp add: filter_id_conv)
  ultimately show ?thesis by (simp add: tokenize_def)
qed

text \<open>
  Claim C7. Joining the tokens that \<open>tokenize\<close> and \<open>removeStopWords\<close> produce with single
  spaces and running both functions on the result gives the same tokens again. The reason
  is stated with it: every produced token is unchanged by \<open>toLowerCase\<close>, consists of
  lowercase letters, digits and hyphens only, is longer than one code unit and is not a
  stop word.
\<close>

theorem tokenize_removeStopWords_idempotent:
  "removeStopWords (tokenize (join (removeStopWords (tokenize text)))) =
     removeStopWords (tokenize text) \<and>
   (\<forall>t \<in> set (removeStopWords (tokenize text)).
      toLowerCase t = t \<and> list_all isTokenUnit t \<and> length t > 1 \<and> t \<notin> set STOP_WORDS)"
proof -
  let ?ts = "removeStopWords (tokenize text)"
  have t: "list_all isTokenUnit t \<and> length t > 1 \<and> t \<notin> set STOP_WORDS" if "t \<in> set ?ts" for t
    using that tokenize_tokens [of t "text"] by (simp add: removeStopWords_def)
  then have "tokenize (join ?ts) = ?ts"
    by (intro tokenize_join) blast
  moreover have "removeStopWords ?ts = ?ts"
    by (simp add: removeStopWords_def)
  ultimately show ?thesis
    using t by (auto simp: toLowerCase_tokens)
qed

theorem tokenize_removeStopWords_idempotent_witness:
  "removeStopWords (tokenize (js ''The QUICK, brown fox!'')) = [js ''quick'', js ''brown'', js ''fox''] \<and>
   removeStopWords (tokenize (join [js ''quick'', js ''brown'', js ''fox''])) =
     [js ''quick'', js ''brown'', js ''fox''] \<and>
   js ''fox'' \<in> set (removeStopWords (tokenize (js ''The QUICK, brown fox!''))) \<and>
   toLowerCase (js ''fox'') = js ''fox'' \<and> list_all isTokenUnit (js ''fox'') \<and>
   length (js ''fox'') > 1 \<and> js ''fox'' \<notin> set STOP_WORDS"
proof -
  have e: "removeStopWords (tokenize (js ''The QUICK, brown fox!'')) =
      [js ''quick'', js ''brown'', js ''fox'']"
    by (simp add: tokenize_def removeStopWords_def STOP_WORDS_def js_def toLowerCase_def
        toLowerUnit_def isTokenUnit_def isWhiteSpace_def)
  show ?thesis
    using tokenize_removeStopWords_idempotent [of "js ''The QUICK, brown fox!''"]
    by (simp add: e)
qed

section \<open>Category boosts\<close>

lemma boostStep_None: "CATEGORY_KEYWORDS t = None \<Longrightarrow> boostStep t m = m"
  by (simp add: boostStep_def)

lemma boostStep_Some:
  "CATEGORY_KEYWORDS t = Some key \<Longrightarrow>
     boostStep t m = m(key \<mapsto> (case m key of None \<Rightarrow> 0 | Some n \<Rightarrow> n) + 1)"
  by (simp add: boostStep_def)

lemma fold_boostStep:
  "fold boostStep T m k =
     (if filter (\<lambda>t. CATEGORY_KEYWORDS t = Some k) T = [] then m k
      else Some ((case m k of None \<Rightarrow> 0 | Some n \<Rightarrow> n) +
                 int (length (filter (\<lambda>t. CATEGORY_KEYWORDS t = Some k) T))))"
proof (induction T arbitrary: m)
  case Nil
  then show ?case by simp
next
  case (Cons t T)
  have step: "fold boostStep (t # T) m k = fold boostStep T (boostStep t m) k"
    by simp
  show ?case
  proof (cases "CATEGORY_KEYWORDS t")
    case None
    then show ?thesis
      unfolding step Cons.IH by (simp add: boostStep_None)
  next
    case (Some key)
    show ?thesis
    proof (cases "key = k")
      case True
      with Some show ?thesis
        unfolding step Cons.IH by (simp add: boostStep_Some)
    next
      case False
      with Some show ?thesis
        unfolding step Cons.IH by (simp add: boostStep_Some)
    qed
  qed
qed

lemma detectCategoryBoosts_count:
  "detectCategoryBoosts T k =
     (if filter (\<lambda>t. CATEGORY_KEYWORDS t = Some k) T = [] then None
      else Some (int (length (filter (\<lambda>t. CATEGORY_KEYWORDS t = Some k) T))))"
  by (simp add: detectCategoryBoosts_def fold_boostStep)

lemma length_filter_mset: "mset T = mset T' \<Longrightarrow> length (filter P T) = length (filter P T')"
proof -
  assume "mset T = mset T'"
  then have "size (filter_mset P (mset T)) = size (filter_mset P (mset T'))"
    by simp
  then show ?thesis
    by (simp only: mset_filter [symmetric] size_mset)
qed

text \<open>
  Claim C8. Two token lists that are permutations of each other give the same boost map:
  the same count (or no entry) for every key, in particular for every category.
\<close>

theorem detectCategoryBoosts_permutation:
  "mset T = mset T' \<Longrightarrow>
     detectCategoryBoosts T = detectCategoryBoosts T' \<and>
     (\<forall>c. detectCategoryBoosts T (CategoryKey c) = detectCategoryBoosts T' (CategoryKey c))"
proof -
  assume p: "mset T = mset T'"
  have "detectCategoryBoosts T k = detectCategoryBoosts T' k" for k
  proof -
    let ?P = "\<lambda>t. CATEGORY_KEYWORDS t = Some k"
    have l: "length (filter ?P T) = length (filter ?P T')"
      using p by (rule length_filter_mset)
    then have "(filter ?P T = []) = (filter ?P T' = [])"
      by (metis length_0_conv)
    with l show ?thesis
      by (simp add: detectCategoryBoosts_count)
  qed
  then show ?thesis by auto
qed

lemma keyword_function: "CATEGORY_KEYWORDS (js ''function'') = Some (CategoryKey Functions)"
  by (simp add: CATEGORY_KEYWORDS_def CATEGORY_KEYWORDS_table_def js_eq_iff)

lemma keyword_parameters: "CATEGORY_KEYWORDS (js ''parameters'') = Some (CategoryKey Functions)"
  by (simp add: CATEGORY_KEYWORDS_def CATEGORY_KEYWORDS_table_def js_eq_iff)

lemma keyword_too: "CATEGORY_KEYWORDS (js ''too'') = None"
  by (simp add: CATEGORY_KEYWORDS_def CATEGORY_KEYWORDS_table_def OBJECT_PROTOTYPE_members_def js_eq_iff)

lemma keyword_many: "CATEGORY_KEYWORDS (js ''many'') = None"
  by (simp add: CATEGORY_KEYWORDS_def CATEGORY_KEYWORDS_table_def OBJECT_PROTOTYPE_members_def js_eq_iff)

lemma keyword_srp: "CATEGORY_KEYWORDS (js ''srp'') = Some (CategoryKey Solid)"
  by (simp add: CATEGORY_KEYWORDS_def CATEGORY_KEYWORDS_table_def js_eq_iff)

theorem detectCategoryBoosts_permutation_witness:
  "mset [js ''function'', js ''srp'', js ''parameters''] =
     mset [js ''parameters'', js ''function'', js ''srp''] \<and>
   detectCategoryBoosts [js ''function'', js ''srp'', js ''parameters''] =
     detectCategoryBoosts [js ''parameters'', js ''function'', js ''srp''] \<and>
   detectCategoryBoosts [js ''parameters'', js ''function'', js ''srp''] (CategoryKey Functions) = Some 2"
proof -
  have m: "mset [js ''function'', js ''srp'', js ''parameters''] =
     mset [js ''parameters'', js ''function'', js ''srp'']"
    by simp
  have "detectCategoryBoosts [js ''parameters'', js ''function'', js ''srp''] (CategoryKey Functions) = Some 2"
    by (simp add: detectCategoryBoosts_count keyword_function keyword_parameters keyword_srp)
  with detectCategoryBoosts_permutation [OF m] m show ?thesis
    by simp
qed

section \<open>Context search\<close>

lemma parameters_tokens:
  "removeStopWords (tokenize (js ''my function has too many parameters'')) =
     [js ''function'', js ''too'', js ''many'', js ''parameters'']"
  by (simp add: tokenize_def removeStopWords_def STOP_WORDS_def js_def toLowerCase_def
      toLowerUnit_def isTokenUnit_def isWhiteSpace_def)

text \<open>
  Claim C9. The context \<open>my function has too many parameters\<close> leaves the tokens
  \<open>function\<close>, \<open>too\<close>, \<open>many\<close>, \<open>parameters\<close>; the keyword table sends the first and the last
  to the category \<open>functions\<close>; the boost map stores 2 for that category; and for every
  principle of that category the token score is the sum of the four single-query scores
  plus 30, that is, 30 more than with an empty boost map.
\<close>

theorem too_many_parameters_boost:
  "tokens = removeStopWords (tokenize (js ''my function has too many parameters'')) \<Longrightarrow>
   boosts = detectCategoryBoosts tokens \<Longrightarrow>
     tokens = [js ''function'', js ''too'', js ''many'', js ''parameters''] \<and>
     CATEGORY_KEYWORDS (js ''function'') = Some (CategoryKey Functions) \<and>
     CATEGORY_KEYWORDS (js ''parameters'') = Some (CategoryKey Functions) \<and>
     boosts (CategoryKey Functions) = Some 2 \<and>
     (\<forall>P. category P = Functions \<longrightarrow>
        scorePrincipleByTokens P tokens boosts =
          sum_list (map (\<lambda>t. scorePrincipleByQuery P t) tokens) + 30 \<and>
        scorePrincipleByTokens P tokens boosts = scorePrincipleByTokens P tokens Map.empty + 30)"
proof -
  assume t: "tokens = removeStopWords (tokenize (js ''my function has too many parameters''))"
    and b: "boosts = detectCategoryBoosts tokens"
  have t': "tokens = [js ''function'', js ''too'', js ''many'', js ''parameters'']"
    using t by (simp only: parameters_tokens)
  have b': "boosts (CategoryKey Functions) = Some 2"
    unfolding b t'
    by (simp add: detectCategoryBoosts_count keyword_function keyword_parameters keyword_too
        keyword_many)
  show ?thesis
    using t' b' keyword_function keyword_parameters
    by (simp add: scorePrincipleByTokens_def fold_add_sum_list CATEGORY_BOOST_MULTIPLIER_def)
qed

theorem too_many_parameters_boost_witness:
  "category P_keep_functions_small = Functions \<and>
   detectCategoryBoosts (removeStopWords (tokenize (js ''my function has too many parameters'')))
     (CategoryKey Functions) = Some 2 \<and>
   scorePrincipleByTokens P_keep_functions_small
     (removeStopWords (tokenize (js ''my function has too many parameters'')))
     (detectCategoryBoosts (removeStopWords (tokenize (js ''my function has too many parameters'')))) =
   scorePrincipleByTokens P_keep_functions_small
     (removeStopWords (tokenize (js ''my function has too many parameters''))) Map.empty + 30"
proof -
  have c: "category P_keep_functions_small = Functions"
    by (simp only: P_keep_functions_small_def CleanCodePrinciple.select_convs)
  show ?thesis
    using too_many_parameters_boost [OF refl refl] c by blast
qed

section \<open>The empty query\<close>

lemma empty_normal: "trim (toLowerCase []) = []"
  by (simp add: trim_def toLowerCase_def)

lemma spec_tagContribution_nonneg: "0 \<le> spec_tagContribution tag q"
  by (simp add: spec_tagContribution_def)

lemma tag_sum_nonneg: "0 \<le> sum_list (map (\<lambda>tag. spec_tagContribution tag q) ts)"
  by (induction ts) (simp_all add: spec_tagContribution_nonneg)

lemma score_empty_query:
  "id' P \<noteq> [] \<Longrightarrow>
     scorePrincipleByQuery P [] = 130 + sum_list (map (\<lambda>tag. spec_tagContribution tag []) (tags P))"
  using score_no_id [of P "[]"] by (simp add: empty_normal includes_str_Nil)

lemma score_empty_query_pos: "0 < scorePrincipleByQuery P []"
proof (cases "id' P = []")
  case True
  then show ?thesis using score_exact_id [of P "[]"] by (simp add: empty_normal)
next
  case False
  then show ?thesis using tag_sum_nonneg [of "[]" "tags P"] by (simp add: score_empty_query)
qed

lemma search_empty_all: "mset (searchPrinciple []) = mset PRINCIPLES"
  by (simp add: searchPrinciple_def mset_rank score_empty_query_pos)

text \<open>
  Claim C5. Against the empty query no principle of the corpus takes the id branch, the
  name, description and category tests all succeed, and the score is 130 plus the tag
  contributions, hence positive. The single-query search therefore returns the whole
  corpus, in descending order of the tag contributions, principles of equal tag
  contribution keeping the order of the corpus.
\<close>

theorem empty_query_returns_all:
  "(\<forall>P \<in> set PRINCIPLES.
      id' P \<noteq> trim (toLowerCase []) \<and>
      includes_str (toLowerCase (name P)) (trim (toLowerCase [])) \<and>
      includes_str (toLowerCase (description P)) (trim (toLowerCase [])) \<and>
      includes_str (categoryString (category P)) (trim (toLowerCase [])) \<and>
      scorePrincipleByQuery P [] =
        130 + sum_list (map (\<lambda>tag. spec_tagContribution tag []) (tags P)) \<and>
      0 < scorePrincipleByQuery P []) \<and>
   mset (searchPrinciple []) = mset PRINCIPLES \<and>
   sorted_wrt (\<lambda>a b. sum_list (map (\<lambda>tag. spec_tagContribution tag []) (tags a)) \<ge>
                     sum_list (map (\<lambda>tag. spec_tagContribution tag []) (tags b)))
     (searchPrinciple []) \<and>
   (\<forall>k. filter (\<lambda>P. sum_list (map (\<lambda>tag. spec_tagContribution tag []) (tags P)) = k)
          (searchPrinciple []) =
        filter (\<lambda>P. sum_list (map (\<lambda>tag. spec_tagContribution tag []) (tags P)) = k) PRINCIPLES)"
proof -
  let ?f = "\<lambda>P. scorePrincipleByQuery P []"
  let ?g = "\<lambda>P. sum_list (map (\<lambda>tag. spec_tagContribution tag []) (tags P))"
  have id: "id' P \<noteq> []" if "P \<in> set PRINCIPLES" for P
    using that corpus_nonempty_fields by (simp add: list_all_iff)
  have fg: "?f P = 130 + ?g P" if "P \<in> set PRINCIPLES" for P
    using id [OF that] by (rule score_empty_query)
  have mem: "P \<in> set PRINCIPLES" if "P \<in> set (searchPrinciple [])" for P
    using that by (simp add: searchPrinciple_def set_rank)
  have "sorted_wrt (\<lambda>a b. ?f b \<le> ?f a) (searchPrinciple [])"
    unfolding searchPrinciple_def by (rule sorted_rank)
  then have s: "sorted_wrt (\<lambda>a b. ?g b \<le> ?g a) (searchPrinciple [])"
    by (rule sorted_wrt_mono_rel [rotated]) (simp add: fg mem)
  have st: "filter (\<lambda>P. ?g P = k) (searchPrinciple []) = filter (\<lambda>P. ?g P = k) PRINCIPLES" for k
  proof -
    have "filter (\<lambda>P. ?g P = k) (searchPrinciple []) = filter (\<lambda>P. ?f P = 130 + k) (searchPrinciple [])"
      by (rule filter_cong) (simp_all add: fg mem)
    also have "\<dots> = filter (\<lambda>P. ?f P = 130 + k \<and> 0 < ?f P) PRINCIPLES"
      unfolding searchPrinciple_def by (rule stable_rank)
    also have "\<dots> = filter (\<lambda>P. ?g P = k) PRINCIPLES"
    proof (rule filter_cong)
      fix P
      assume "P \<in> set PRINCIPLES"
      then show "(?f P = 130 + k \<and> 0 < ?f P) = (?g P = k)"
        using fg [of P] score_empty_query_pos [of P] by auto
    qed simp
    finally show ?thesis .
  qed
  have per: "id' P \<noteq> trim (toLowerCase []) \<and>
      includes_str (toLowerCase (name P)) (trim (toLowerCase [])) \<and>
      includes_str (toLowerCase (description P)) (trim (toLowerCase [])) \<and>
      includes_str (categoryString (category P)) (trim (toLowerCase [])) \<and>
      ?f P = 130 + ?g P \<and> 0 < ?f P" if "P \<in> set PRINCIPLES" for P
    using id [OF that] fg [OF that] score_empty_query_pos [of P]
    by (simp add: empty_normal includes_str_Nil)
  from per s st search_empty_all show ?thesis
    by blast
qed

theorem empty_query_returns_all_witness:
  "P_dry_principle \<in> set PRINCIPLES \<and> id' P_dry_principle \<noteq> trim (toLowerCase []) \<and>
   scorePrincipleByQuery P_dry_principle [] = 380"
proof -
  have m: "P_dry_principle \<in> set PRINCIPLES"
    by (simp add: PRINCIPLES_def)
  have t: "tags P_dry_principle =
      [js ''functions'', js ''dry'', js ''duplication'', js ''reuse'', js ''maintenance'']"
    by (simp only: P_dry_principle_def CleanCodePrinciple.select_convs)
  have "sum_list (map (\<lambda>tag. spec_tagContribution tag []) (tags P_dry_principle)) = 250"
    unfolding t by (simp add: spec_tagContribution_def js_eq_Nil includes_str_Nil)
  with empty_query_returns_all m show ?thesis
    by auto
qed

section \<open>A query that matches nothing\<close>

text \<open>
  The query \<open>zzzznotaword\<close> contains the letter \<open>z\<close> four times, so a string that contains
  it has at least four of them; after \<open>toLowerCase\<close> these are the \<open>z\<close> and \<open>Z\<close> of the
  original. No name, description, tag or category of the corpus has that many.
\<close>

lemma sum_list_all_zero: "\<forall>x \<in> set xs. f x = (0::int) \<Longrightarrow> sum_list (map f xs) = 0"
  by (induction xs) simp_all

lemma toLowerUnit_eq_z: "toLowerUnit c = 0x7A \<longleftrightarrow> c = 0x7A \<or> c = 0x5A"
  unfolding toLowerUnit_def by (auto; unat_arith)

lemma count_toLowerCase_z:
  "count_list (toLowerCase s) 0x7A = length (filter (\<lambda>c. c = 0x7A \<or> c = 0x5A) s)"
  by (induction s) (simp_all add: toLowerCase_def toLowerUnit_eq_z)

lemma of_char_eq_z: "(of_char c :: 16 word) = 0x7A \<longleftrightarrow> c = CHR ''z''"
  using of_char_word_eq_iff [of c "CHR ''z''"] by simp

lemma of_char_eq_Z: "(of_char c :: 16 word) = 0x5A \<longleftrightarrow> c = CHR ''Z''"
  using of_char_word_eq_iff [of c "CHR ''Z''"] by simp

lemma filter_z_js:
  "filter (\<lambda>c. c = 0x7A \<or> c = 0x5A) (js s) = js (filter (\<lambda>c. c = CHR ''z'' \<or> c = CHR ''Z'') s)"
  by (simp add: js_def filter_map o_def of_char_eq_z of_char_eq_Z)

lemma filter_z_js_none:
  "list_all (\<lambda>c. c \<noteq> CHR ''z'' \<and> c \<noteq> CHR ''Z'') s \<Longrightarrow>
     filter (\<lambda>c. c = 0x7A \<or> c = 0x5A) (js s) = []"
  by (simp add: js_def list_all_iff filter_empty_conv of_char_eq_z of_char_eq_Z)

lemma length_js: "length (js s) = length s"
  by (simp add: js_def)

lemma count_z_js: "count_list (js s) 0x7A = count_list s CHR ''z''"
  by (induction s) (simp_all add: js_def of_char_eq_z)

lemma zzzz_normal: "trim (toLowerCase (js ''zzzznotaword'')) = js ''zzzznotaword''"
proof -
  have "list_all isTokenUnit (js ''zzzznotaword'')"
    by (simp add: list_all_isTokenUnit_js)
  then show ?thesis by (simp add: toLowerCase_tokens trim_tokens)
qed

lemma zzzz_count: "count_list (js ''zzzznotaword'') 0x7A = 4"
  by (simp add: count_z_js)

lemma zzzz_category: "\<not> includes_str (categoryString c) (js ''zzzznotaword'')"
proof
  assume "includes_str (categoryString c) (js ''zzzznotaword'')"
  then have "4 \<le> count_list (categoryString c) 0x7A"
    using includes_str_count [of _ "js ''zzzznotaword''" "0x7A"] by (simp add: zzzz_count)
  then show False
    by (cases c) (simp_all add: count_z_js)
qed

lemma zzzz_no_match:
  assumes "id' P \<noteq> js ''zzzznotaword''"
    and "length (filter (\<lambda>c. c = 0x7A \<or> c = 0x5A) (name P)) < 4"
    and "length (filter (\<lambda>c. c = 0x7A \<or> c = 0x5A) (description P)) < 4"
    and "list_all (\<lambda>t. count_list t 0x7A < 4 \<and> \<not> includes_str (js ''zzzznotaword'') t) (tags P)"
  shows "scorePrincipleByQuery P (js ''zzzznotaword'') = 0"
proof -
  let ?q = "js ''zzzznotaword''"
  have n: "\<not> includes_str (toLowerCase (name P)) ?q"
    using includes_str_count [of "toLowerCase (name P)" ?q "0x7A"] assms(2)
    by (auto simp: zzzz_count count_toLowerCase_z)
  have d: "\<not> includes_str (toLowerCase (description P)) ?q"
    using includes_str_count [of "toLowerCase (description P)" ?q "0x7A"] assms(3)
    by (auto simp: zzzz_count count_toLowerCase_z)
  have z: "spec_tagContribution t ?q = 0" if "t \<in> set (tags P)" for t
  proof -
    from that assms(4) have c: "count_list t 0x7A < 4" and i: "\<not> includes_str ?q t"
      by (simp_all add: list_all_iff)
    from c have "\<not> includes_str t ?q"
      using includes_str_count [of t ?q "0x7A"] by (auto simp: zzzz_count)
    moreover from i have "t \<noteq> ?q"
      using includes_str_refl [of ?q] by auto
    ultimately show ?thesis using i by (simp add: spec_tagContribution_def)
  qed
  have t: "sum_list (map (\<lambda>tag. spec_tagContribution tag ?q) (tags P)) = 0"
    by (rule sum_list_all_zero) (simp add: z)
  show ?thesis
    using assms(1) n d t zzzz_category [of "category P"] score_no_id [of P ?q]
    by (simp add: zzzz_normal)
qed

lemma corpus_zzzz_names:
  "list_all (\<lambda>P. id' P \<noteq> js ''zzzznotaword'' \<and>
      length (filter (\<lambda>c. c = 0x7A \<or> c = 0x5A) (name P)) < 4) PRINCIPLES"
  apply (simp only: PRINCIPLES_def corpus_defs list.pred_inject CleanCodePrinciple.select_convs)
  apply (simp add: js_eq_iff filter_z_js length_js)
  done

lemma corpus_zzzz_descriptions:
  "list_all (\<lambda>P. length (filter (\<lambda>c. c = 0x7A \<or> c = 0x5A) (description P)) < 4) PRINCIPLES"
  apply (simp only: PRINCIPLES_def corpus_defs list.pred_inject CleanCodePrinciple.select_convs)
  apply (simp add: filter_z_js_none)
  apply (simp add: filter_z_js length_js)
  done

lemma corpus_zzzz_tags:
  "list_all (\<lambda>P. list_all (\<lambda>t. count_list t 0x7A < 4 \<and>
      \<not> includes_str (js ''zzzznotaword'') t) (tags P)) PRINCIPLES"
  apply (simp only: PRINCIPLES_def corpus_defs list.pred_inject CleanCodePrinciple.select_convs)
  apply (simp add: count_z_js includes_str_js)
  done

lemma corpus_zzzz: "P \<in> set PRINCIPLES \<Longrightarrow> scorePrincipleByQuery P (js ''zzzznotaword'') = 0"
  using corpus_zzzz_names corpus_zzzz_descriptions corpus_zzzz_tags
  by (intro zzzz_no_match) (simp_all add: list_all_iff)

lemma zzzz_tokens: "removeStopWords (tokenize (js ''zzzznotaword'')) = [js ''zzzznotaword'']"
proof -
  have "list_all isTokenUnit (js ''zzzznotaword'') \<and> length (js ''zzzznotaword'') > 1"
    by (simp add: list_all_isTokenUnit_js length_js)
  then have "tokenize (join [js ''zzzznotaword'']) = [js ''zzzznotaword'']"
    by (intro tokenize_join) simp
  moreover have "js ''zzzznotaword'' \<notin> set STOP_WORDS"
    by (simp add: STOP_WORDS_def js_eq_iff)
  ultimately show ?thesis by (simp add: removeStopWords_def)
qed

lemma zzzz_keyword: "CATEGORY_KEYWORDS (js ''zzzznotaword'') = None"
  by (simp add: CATEGORY_KEYWORDS_def CATEGORY_KEYWORDS_table_def OBJECT_PROTOTYPE_members_def js_eq_iff)

text \<open>
  Claim C6. A ranking in which no entry has a positive score is the empty list; none of
  the sixty-three principles scores above zero against \<open>zzzznotaword\<close>; and both search
  paths return the empty list for it. The functions are total: the model has no error
  value because the source has no failing branch.
\<close>

theorem no_match_empty_result:
  "((\<forall>p \<in> set ps. f p \<le> 0) \<longrightarrow> rankPrinciples ps f = []) \<and>
   (\<forall>P \<in> set PRINCIPLES. scorePrincipleByQuery P (js ''zzzznotaword'') \<le> 0) \<and>
   searchPrinciple (js ''zzzznotaword'') = [] \<and>
   searchByContext (js ''zzzznotaword'') = []"
proof (intro conjI impI)
  show "rankPrinciples ps f = []" if "\<forall>p \<in> set ps. f p \<le> 0"
    using that by (rule rank_no_positive)
  show "\<forall>P \<in> set PRINCIPLES. scorePrincipleByQuery P (js ''zzzznotaword'') \<le> 0"
    by (simp add: corpus_zzzz)
  show "searchPrinciple (js ''zzzznotaword'') = []"
    unfolding searchPrinciple_def by (rule rank_no_positive) (simp add: corpus_zzzz)
  have "detectCategoryBoosts [js ''zzzznotaword''] k = None" for k
    by (simp add: detectCategoryBoosts_count zzzz_keyword)
  then have "scorePrincipleByTokens P [js ''zzzznotaword'']
      (detectCategoryBoosts [js ''zzzznotaword'']) = 0" if "P \<in> set PRINCIPLES" for P
    using that by (simp add: scorePrincipleByTokens_def corpus_zzzz)
  then show "searchByContext (js ''zzzznotaword'') = []"
    unfolding searchByContext_def zzzz_tokens Let_def by (intro rank_no_positive) simp
qed

theorem no_match_empty_result_witness:
  "list_all (\<lambda>p. scorePrincipleByQuery p (js ''zzzznotaword'') \<le> 0) PRINCIPLES \<and>
   rankPrinciples PRINCIPLES (\<lambda>p. scorePrincipleByQuery p (js ''zzzznotaword'')) = []"
  using no_match_empty_result [of PRINCIPLES "\<lambda>p. scorePrincipleByQuery p (js ''zzzznotaword'')"]
  by (simp add: list_all_iff)

section \<open>An empty token stream\<close>

lemma score_no_tokens: "scorePrincipleByTokens P [] (detectCategoryBoosts []) = 0"
  by (simp add: scorePrincipleByTokens_def detectCategoryBoosts_def)

lemma blank_tokens: "removeStopWords (tokenize [0x20, 0x09, 0x0A, 0x20]) = []"
  by (simp add: tokenize_def removeStopWords_def toLowerCase_def
      toLowerUnit_def isTokenUnit_def isWhiteSpace_def)

lemma stop_word_tokens: "removeStopWords (tokenize (js ''The a, I; of x!'')) = []"
  by (simp add: tokenize_def removeStopWords_def STOP_WORDS_def js_def toLowerCase_def
      toLowerUnit_def isTokenUnit_def isWhiteSpace_def)

text \<open>
  Claim C10. When tokenization and stop-word removal leave no token, every principle gets
  the token score 0 and the context search returns the empty list. This is the case for the
  empty string, for white space only, and for text made of stop words and one-letter
  fragments. The single-query search, by contrast, returns the whole (non-empty) corpus
  for the empty string.
\<close>

theorem empty_token_stream:
  "(removeStopWords (tokenize ctx) = [] \<longrightarrow>
      (\<forall>P. scorePrincipleByTokens P (removeStopWords (tokenize ctx))
             (detectCategoryBoosts (removeStopWords (tokenize ctx))) = 0) \<and>
      searchByContext ctx = []) \<and>
   removeStopWords (tokenize []) = [] \<and>
   removeStopWords (tokenize [0x20, 0x09, 0x0A, 0x20]) = [] \<and>
   removeStopWords (tokenize (js ''The a, I; of x!'')) = [] \<and>
   searchByContext [] = [] \<and>
   mset (searchPrinciple []) = mset PRINCIPLES \<and> PRINCIPLES \<noteq> []"
proof -
  have g: "searchByContext c = []" if "removeStopWords (tokenize c) = []" for c
    unfolding searchByContext_def Let_def that
    by (rule rank_no_positive) (simp add: score_no_tokens)
  have e: "removeStopWords (tokenize []) = []"
    by (simp add: tokenize_def removeStopWords_def toLowerCase_def)
  have "PRINCIPLES \<noteq> []"
    by (simp add: PRINCIPLES_def)
  with g [of ctx] g [OF e] e blank_tokens stop_word_tokens search_empty_all show ?thesis
    by (auto simp: score_no_tokens)
qed

theorem empty_token_stream_witness:
  "removeStopWords (tokenize (js ''The a, I; of x!'')) = [] \<and>
   scorePrincipleByTokens P_keep_functions_small (removeStopWords (tokenize (js ''The a, I; of x!'')))
     (detectCategoryBoosts (removeStopWords (tokenize (js ''The a, I; of x!'')))) = 0 \<and>
   searchByContext (js ''The a, I; of x!'') = []"
  using empty_token_stream [of "js ''The a, I; of x!''"] by blast

end
